theory Spec2Isabelle
  imports Main "HOL-Library.Word" "HOL-Library.Multiset" "HOL-Library.Sublist"
begin

section \<open>Data model (apis/evictionrequest/v1alpha1)\<close>

text \<open>
  Go's \<^verbatim>\<open>int32\<close> is a 32-bit word read as two's complement (\<open>sint\<close>); \<^verbatim>\<open>++\<close> wraps
  around. A \<^verbatim>\<open>metav1.Time\<close> is an instant, counted here in nanoseconds since the epoch.
  A pointer-typed field is an \<open>option\<close>: \<open>None\<close> is \<^verbatim>\<open>nil\<close>.
\<close>

type_synonym int32 = "32 word"
type_synonym Time = int

text \<open>
  Errors: one returned by a client call, one made by \<^verbatim>\<open>errors.New\<close>, and one wrapped by
  \<^verbatim>\<open>fmt.Errorf("...: %w", err)\<close>.
\<close>

datatype error = ApiError string | ErrorsNew string | Errorf string error

text \<open>\<^verbatim>\<open>metav1.Condition\<close>; its \<^verbatim>\<open>Status\<close> is the string type \<^verbatim>\<open>metav1.ConditionStatus\<close>.\<close>

record Condition =
  CondType :: string
  CondStatus :: string
  ObservedGeneration :: int
  LastTransitionTime :: Time
  Reason :: string
  CondMessage :: string

definition ConditionTrue :: string where "ConditionTrue = ''True''"
definition ConditionFalse :: string where "ConditionFalse = ''False''"

record LocalPodReference =
  RefName :: string
  RefUID :: string

record EvictionTarget =
  PodRef :: "LocalPodReference option"

record Requester =
  RequesterName :: string

record Interceptor =
  InterceptorClass :: string
  Priority :: int32
  Role :: "string option"

record EvictionRequestSpec =
  SpecType :: string
  Target :: EvictionTarget
  Requesters :: "Requester list"
  Interceptors :: "Interceptor list"
  HeartbeatDeadlineSeconds :: "int32 option"

record PodEvictionStatus =
  FailedAPIEvictionCounter :: int32

record EvictionRequestStatus =
  Conditions :: "Condition list"
  Message :: string
  ActiveInterceptorClass :: "string option"
  ActiveInterceptorCompleted :: bool
  HeartbeatTime :: "Time option"
  ExpectedInterceptorFinishTime :: "Time option"
  EvictionRequestCancellationPolicy :: string
  PodEvictionStatus :: "PodEvictionStatus option"

definition Allow :: string where "Allow = ''Allow''"
definition Forbid :: string where "Forbid = ''Forbid''"

record EvictionRequest =
  Namespace :: string
  Name :: string
  Spec :: EvictionRequestSpec
  Status :: EvictionRequestStatus

subsection \<open>Constants (pkg/constants)\<close>

definition ConditionTypeReady :: string where "ConditionTypeReady = ''Ready''"
definition ConditionTypeEvicted :: string where "ConditionTypeEvicted = ''Evicted''"
definition ReasonPodNotFound :: string where "ReasonPodNotFound = ''PodNotFound''"
definition ReasonEvictionSucceeded :: string where "ReasonEvictionSucceeded = ''EvictionSucceeded''"
definition ReasonEvictionFailed :: string where "ReasonEvictionFailed = ''EvictionFailed''"

section \<open>The collaborators: pod lister, eviction call, status writes, clock\<close>

text \<open>
  What one invocation reads from outside is an \<open>env\<close>: the clock, the pod lister's cache
  (a pod, a not-found error, or another error), the outcome of the eviction call for a
  pod, and the outcome of each \<^verbatim>\<open>UpdateStatus\<close> call, by the number of such calls made
  before it. The lister's cache is read as it is when the invocation starts. What the
  invocation writes is recorded in a \<open>world\<close>: the status the object store holds, every
  object submitted to \<^verbatim>\<open>UpdateStatus\<close> and every eviction issued, in order. The
  logger's lines are left out: they change neither.
\<close>

record Pod =
  PodName :: string
  PodNamespace :: string
  PodUID :: string

datatype lookup = Found Pod | NotFound | GetFailed error

record env =
  now :: Time
  podLister :: "string \<Rightarrow> string \<Rightarrow> lookup"
  evictV1 :: "string \<Rightarrow> string \<Rightarrow> error option"
  updateStatus :: "nat \<Rightarrow> error option"

record world =
  store :: EvictionRequestStatus
  updateCalls :: "EvictionRequest list"
  evictCalls :: "(string \<times> string) list"

text \<open>
  A Go function of result type \<^verbatim>\<open>error\<close> returns \<^verbatim>\<open>nil\<close> (\<open>Ok\<close>), returns an error, or
  panics. Every operation returns its outcome with the request object as it has mutated
  it through the pointer, and the world.
\<close>

datatype panic = NilPointerDereference | IndexOutOfRange
datatype outcome = Ok | Err error | Panic panic

text \<open>
  \<^verbatim>\<open>EvictionRequests(ns).UpdateStatus(ctx, evictionRequest, ...)\<close>: the submitted object
  is recorded; on success the store holds its status. The object passed in is not
  changed (every caller drops the returned copy).
\<close>

definition UpdateStatus :: "env \<Rightarrow> EvictionRequest \<Rightarrow> world \<Rightarrow> error option \<times> world" where
  "UpdateStatus e r w =
     (let w1 = w\<lparr>updateCalls := updateCalls w @ [r]\<rparr> in
      case updateStatus e (length (updateCalls w)) of
        None \<Rightarrow> (None, w1\<lparr>store := Status r\<rparr>)
      | Some err \<Rightarrow> (Some err, w1))"

section \<open>Status manager (pkg/reconciler/status)\<close>

text \<open>
  The loop of \<^verbatim>\<open>UpsertCondition\<close> over the existing conditions: the first one of the
  condition's type is overwritten in place and the loop breaks; the flag is \<^verbatim>\<open>found\<close>.
\<close>

fun replaceCondition :: "Time \<Rightarrow> Condition \<Rightarrow> Condition list \<Rightarrow> Condition list \<times> bool" where
  "replaceCondition t condition [] = ([], False)"
| "replaceCondition t condition (existing # rest) =
     (if CondType existing = CondType condition then
        ((if CondStatus existing \<noteq> CondStatus condition
          then condition\<lparr>LastTransitionTime := t\<rparr>
          else condition\<lparr>LastTransitionTime := LastTransitionTime existing\<rparr>) # rest, True)
      else (case replaceCondition t condition rest of
              (cs, found) \<Rightarrow> (existing # cs, found)))"

definition defaultCancellationPolicy :: "EvictionRequest \<Rightarrow> EvictionRequest" where
  "defaultCancellationPolicy r =
     (if EvictionRequestCancellationPolicy (Status r) = ''''
      then r\<lparr>Status := (Status r)\<lparr>EvictionRequestCancellationPolicy := Allow\<rparr>\<rparr>
      else r)"

definition UpsertCondition ::
  "env \<Rightarrow> EvictionRequest \<Rightarrow> world \<Rightarrow> string \<Rightarrow> string \<Rightarrow> string \<Rightarrow> string
     \<Rightarrow> outcome \<times> EvictionRequest \<times> world" where
  "UpsertCondition e r w conditionType status reason message =
     (let condition = \<lparr>CondType = conditionType, CondStatus = status, ObservedGeneration = 0,
                        LastTransitionTime = now e, Reason = reason, CondMessage = message\<rparr>;
          (cs, found) = replaceCondition (now e) condition (Conditions (Status r));
          cs' = (if \<not> found then cs @ [condition] else cs);
          r1 = r\<lparr>Status := (Status r)\<lparr>Conditions := cs'\<rparr>\<rparr>;
          r2 = defaultCancellationPolicy r1
      in case UpdateStatus e r2 w of
           (Some err, w1) \<Rightarrow> (Err err, r2, w1)
         | (None, w1) \<Rightarrow> (Ok, r2, w1))"

definition IncrementFailedEvictionCounter ::
  "env \<Rightarrow> EvictionRequest \<Rightarrow> world \<Rightarrow> outcome \<times> EvictionRequest \<times> world" where
  "IncrementFailedEvictionCounter e r w =
     (let p = (case PodEvictionStatus (Status r) of
                 None \<Rightarrow> \<lparr>FailedAPIEvictionCounter = 0\<rparr>
               | Some p \<Rightarrow> p);
          p' = p\<lparr>FailedAPIEvictionCounter := FailedAPIEvictionCounter p + 1\<rparr>;
          r1 = r\<lparr>Status := (Status r)\<lparr>PodEvictionStatus := Some p'\<rparr>\<rparr>;
          r2 = defaultCancellationPolicy r1
      in case UpsertCondition e r2 w ConditionTypeEvicted ConditionFalse ReasonEvictionFailed
                ''Failed to evict pod'' of
           (Err err, r3, w3) \<Rightarrow> (Err err, r3, w3)
         | (_, r3, w3) \<Rightarrow> (Ok, r3, w3))"

section \<open>Terminal eviction performer (pkg/reconciler/eviction)\<close>

text \<open>
  The results of \<^verbatim>\<open>UpsertCondition\<close> and \<^verbatim>\<open>IncrementFailedEvictionCounter\<close> are dropped
  by \<^verbatim>\<open>Perform\<close>, as in the source: only their effect on the object and the world stays.
\<close>

definition Perform :: "env \<Rightarrow> EvictionRequest \<Rightarrow> world \<Rightarrow> outcome \<times> EvictionRequest \<times> world" where
  "Perform e r w =
     (case PodRef (Target (Spec r)) of
        None \<Rightarrow>
          (case UpsertCondition e r w ConditionTypeReady ConditionFalse ReasonPodNotFound
                  ''EvictionRequest.Spec.Target.PodRef cannot be nil'' of
             (_, r1, w1) \<Rightarrow> (Err (ErrorsNew ''pod reference cannot be nil''), r1, w1))
      | Some ref \<Rightarrow>
          (case podLister e (Namespace r) (RefName ref) of
             NotFound \<Rightarrow> (Ok, r, w)
           | GetFailed err \<Rightarrow> (Err (Errorf ''failed to get pod'' err), r, w)
           | Found pod \<Rightarrow>
               (let w1 = w\<lparr>evictCalls := evictCalls w @ [(PodNamespace pod, PodName pod)]\<rparr> in
                case evictV1 e (PodNamespace pod) (PodName pod) of
                  Some err \<Rightarrow>
                    (case IncrementFailedEvictionCounter e r w1 of
                       (_, r2, w2) \<Rightarrow> (Err (Errorf ''failed to evict pod'' err), r2, w2))
                | None \<Rightarrow>
                    (case UpsertCondition e r w1 ConditionTypeEvicted ConditionTrue
                            ReasonEvictionSucceeded ''Pod evicted successfully'' of
                       (_, r2, w2) \<Rightarrow> (Ok, r2, w2)))))"

section \<open>Interceptor state machine (pkg/reconciler/interceptor)\<close>

text \<open>
  \<^verbatim>\<open>sort.Slice\<close> belongs to Go's library, not to this repository, and is documented as not
  stable. It is a parameter \<open>srt\<close> of the model, called with the comparator the source
  passes (\<open>byPriority\<close>: a higher priority comes first). \<open>sort_Slice_contract\<close> is what the
  library promises of it: the result is a rearrangement of the input in which no element
  is before one that the comparator puts first.
\<close>

definition byPriority :: "Interceptor \<Rightarrow> Interceptor \<Rightarrow> bool" where
  "byPriority a b = (sint (Priority a) > sint (Priority b))"

definition sort_Slice_contract ::
  "((Interceptor \<Rightarrow> Interceptor \<Rightarrow> bool) \<Rightarrow> Interceptor list \<Rightarrow> Interceptor list) \<Rightarrow> bool" where
  "sort_Slice_contract srt =
     (\<forall>xs. mset (srt byPriority xs) = mset xs
          \<and> sorted_wrt (\<lambda>a b. \<not> byPriority b a) (srt byPriority xs))"

text \<open>
  For slices of at most 12 elements \<^verbatim>\<open>sort.Slice\<close> runs Go's \<^verbatim>\<open>insertionSortLessFunc\<close>:
  each element in turn moves left past every predecessor it is less than. \<open>sink\<close> holds
  the sorted prefix with its last element first.
\<close>

fun sink :: "('a \<Rightarrow> 'a \<Rightarrow> bool) \<Rightarrow> 'a \<Rightarrow> 'a list \<Rightarrow> 'a list" where
  "sink lt x [] = [x]"
| "sink lt x (p # rs) = (if lt x p then p # sink lt x rs else x # p # rs)"

definition insertionSortLessFunc :: "('a \<Rightarrow> 'a \<Rightarrow> bool) \<Rightarrow> 'a list \<Rightarrow> 'a list" where
  "insertionSortLessFunc lt xs = rev (foldl (\<lambda>rs x. sink lt x rs) [] xs)"

definition sortInterceptorsByPriority ::
  "((Interceptor \<Rightarrow> Interceptor \<Rightarrow> bool) \<Rightarrow> Interceptor list \<Rightarrow> Interceptor list)
     \<Rightarrow> Interceptor list \<Rightarrow> Interceptor list" where
  "sortInterceptorsByPriority srt interceptors = srt byPriority interceptors"

definition updateEvictionRequestStatus ::
  "env \<Rightarrow> EvictionRequest \<Rightarrow> world \<Rightarrow> outcome \<times> EvictionRequest \<times> world" where
  "updateEvictionRequestStatus e r w =
     (case UpdateStatus e r w of
        (Some err, w1) \<Rightarrow> (Err err, r, w1)
      | (None, w1) \<Rightarrow> (Ok, r, w1))"

text \<open>\<^verbatim>\<open>interceptors[0]\<close> panics on an empty slice.\<close>

definition selectInitialInterceptor ::
  "env \<Rightarrow> EvictionRequest \<Rightarrow> world \<Rightarrow> Interceptor list \<Rightarrow> outcome \<times> EvictionRequest \<times> world" where
  "selectInitialInterceptor e r w interceptors =
     (case interceptors of
        [] \<Rightarrow> (Panic IndexOutOfRange, r, w)
      | highestPriorityInterceptor # _ \<Rightarrow>
          updateEvictionRequestStatus e
            (r\<lparr>Status := (Status r)\<lparr>ActiveInterceptorClass :=
                  Some (InterceptorClass highestPriorityInterceptor)\<rparr>\<rparr>) w)"

fun findInterceptorIndex :: "Interceptor list \<Rightarrow> string \<Rightarrow> int" where
  "findInterceptorIndex [] interceptorClass = - 1"
| "findInterceptorIndex (interceptor # rest) interceptorClass =
     (if InterceptorClass interceptor = interceptorClass then 0
      else (let idx = findInterceptorIndex rest interceptorClass
            in if idx < 0 then - 1 else idx + 1))"

definition selectNextInterceptor ::
  "env \<Rightarrow> EvictionRequest \<Rightarrow> world \<Rightarrow> Interceptor list \<Rightarrow> int
     \<Rightarrow> outcome \<times> EvictionRequest \<times> world" where
  "selectNextInterceptor e r w interceptors currentIndex =
     (if 0 \<le> currentIndex + 1 \<and> currentIndex + 1 < int (length interceptors) then
        (let nextInterceptor = interceptors ! nat (currentIndex + 1) in
         updateEvictionRequestStatus e
           (r\<lparr>Status := (Status r)\<lparr>ActiveInterceptorClass :=
                 Some (InterceptorClass nextInterceptor)\<rparr>\<rparr>) w)
      else (Panic IndexOutOfRange, r, w))"

definition handleCompletedInterceptor ::
  "env \<Rightarrow> EvictionRequest \<Rightarrow> world \<Rightarrow> Interceptor list \<Rightarrow> outcome \<times> EvictionRequest \<times> world" where
  "handleCompletedInterceptor e r w interceptors =
     (case ActiveInterceptorClass (Status r) of
        None \<Rightarrow> (Panic NilPointerDereference, r, w)
      | Some activeClass \<Rightarrow>
          (let currentIndex = findInterceptorIndex interceptors activeClass in
           if currentIndex \<ge> 0 \<and> currentIndex + 1 < int (length interceptors)
           then selectNextInterceptor e r w interceptors currentIndex
           else Perform e r w))"

text \<open>
  \<^verbatim>\<open>time.Since(t)\<close> is \<^verbatim>\<open>time.Now().Sub(t)\<close>, a \<^verbatim>\<open>Duration\<close> (nanoseconds in an int64)
  that \<^verbatim>\<open>Sub\<close> saturates at the least and greatest \<^verbatim>\<open>Duration\<close>. The deadline is
  \<^verbatim>\<open>time.Duration(seconds) * time.Second\<close>, an int64 product of an int32 and \<open>10\<^sup>9\<close>,
  which cannot overflow.
\<close>

definition maxDuration :: int where "maxDuration = 2 ^ 63 - 1"
definition minDuration :: int where "minDuration = - (2 ^ 63)"
definition Second :: int where "Second = 1000000000"

definition time_Sub :: "Time \<Rightarrow> Time \<Rightarrow> int" where
  "time_Sub t u =
     (let d = t - u in
      if d > maxDuration then maxDuration else if d < minDuration then minDuration else d)"

definition time_Since :: "env \<Rightarrow> Time \<Rightarrow> int" where
  "time_Since e t = time_Sub (now e) t"

text \<open>Both functions dereference \<^verbatim>\<open>ActiveInterceptorClass\<close> for their log line.\<close>

definition markInterceptorAsCompleted ::
  "env \<Rightarrow> EvictionRequest \<Rightarrow> world \<Rightarrow> int \<Rightarrow> outcome \<times> EvictionRequest \<times> world" where
  "markInterceptorAsCompleted e r w deadline =
     (case ActiveInterceptorClass (Status r) of
        None \<Rightarrow> (Panic NilPointerDereference, r, w)
      | Some _ \<Rightarrow>
          updateEvictionRequestStatus e
            (r\<lparr>Status := (Status r)\<lparr>ActiveInterceptorCompleted := True\<rparr>\<rparr>) w)"

definition waitForProgress ::
  "EvictionRequest \<Rightarrow> world \<Rightarrow> outcome \<times> EvictionRequest \<times> world" where
  "waitForProgress r w =
     (case ActiveInterceptorClass (Status r) of
        None \<Rightarrow> (Panic NilPointerDereference, r, w)
      | Some _ \<Rightarrow> (Ok, r, w))"

definition checkInterceptorTimeout ::
  "env \<Rightarrow> EvictionRequest \<Rightarrow> world \<Rightarrow> outcome \<times> EvictionRequest \<times> world" where
  "checkInterceptorTimeout e r w =
     (case (HeartbeatDeadlineSeconds (Spec r), HeartbeatTime (Status r)) of
        (Some seconds, Some heartbeat) \<Rightarrow>
          (let deadline = sint seconds * Second in
           if time_Since e heartbeat > deadline
           then markInterceptorAsCompleted e r w deadline
           else waitForProgress r w)
      | _ \<Rightarrow> waitForProgress r w)"

definition Handle ::
  "((Interceptor \<Rightarrow> Interceptor \<Rightarrow> bool) \<Rightarrow> Interceptor list \<Rightarrow> Interceptor list)
     \<Rightarrow> env \<Rightarrow> EvictionRequest \<Rightarrow> world \<Rightarrow> outcome \<times> EvictionRequest \<times> world" where
  "Handle srt e r w =
     (let interceptors = sortInterceptorsByPriority srt (Interceptors (Spec r)) in
      if ActiveInterceptorClass (Status r) = None \<or> ActiveInterceptorClass (Status r) = Some ''''
      then selectInitialInterceptor e r w interceptors
      else if ActiveInterceptorCompleted (Status r)
      then handleCompletedInterceptor e r w interceptors
      else checkInterceptorTimeout e r w)"

section \<open>Dispatcher (pkg/reconciler)\<close>

text \<open>
  \<^verbatim>\<open>evictionRequest.Spec.Target.PodRef.Name\<close> is read for the pod lookup before anything
  else: a nil \<^verbatim>\<open>PodRef\<close> panics there. \<open>routeRequest\<close> is the end of
  \<^verbatim>\<open>ReconcileEvictionRequest\<close>, after the cancellation policy's default.
\<close>

definition routeRequest ::
  "((Interceptor \<Rightarrow> Interceptor \<Rightarrow> bool) \<Rightarrow> Interceptor list \<Rightarrow> Interceptor list)
     \<Rightarrow> env \<Rightarrow> EvictionRequest \<Rightarrow> world \<Rightarrow> outcome \<times> EvictionRequest \<times> world" where
  "routeRequest srt e r w =
     (if length (Interceptors (Spec r)) > 0 then Handle srt e r w else Perform e r w)"

definition ReconcileEvictionRequest ::
  "((Interceptor \<Rightarrow> Interceptor \<Rightarrow> bool) \<Rightarrow> Interceptor list \<Rightarrow> Interceptor list)
     \<Rightarrow> env \<Rightarrow> EvictionRequest \<Rightarrow> world \<Rightarrow> outcome \<times> EvictionRequest \<times> world" where
  "ReconcileEvictionRequest srt e r w =
     (case PodRef (Target (Spec r)) of
        None \<Rightarrow> (Panic NilPointerDereference, r, w)
      | Some ref \<Rightarrow>
          (case podLister e (Namespace r) (RefName ref) of
             NotFound \<Rightarrow> (Ok, r, w)
           | GetFailed err \<Rightarrow> (Err err, r, w)
           | Found pod \<Rightarrow>
               if PodUID pod \<noteq> RefUID ref then (Ok, r, w)
               else if EvictionRequestCancellationPolicy (Status r) = '''' then
                 (let r1 = r\<lparr>Status := (Status r)\<lparr>EvictionRequestCancellationPolicy := Allow\<rparr>\<rparr> in
                  case UpdateStatus e r1 w of
                    (Some err, w1) \<Rightarrow> (Err err, r1, w1)
                  | (None, w1) \<Rightarrow> routeRequest srt e r1 w1)
               else routeRequest srt e r w))"

section \<open>Observations on the model\<close>

text \<open>
  The first condition of a type, which is the one \<^verbatim>\<open>UpsertCondition\<close> reads and
  overwrites; the condition it builds; and the list its loop and append leave.
\<close>

definition findCondition :: "string \<Rightarrow> Condition list \<Rightarrow> Condition option" where
  "findCondition ty cs = find (\<lambda>c. CondType c = ty) cs"

definition mkCondition :: "Time \<Rightarrow> string \<Rightarrow> string \<Rightarrow> string \<Rightarrow> string \<Rightarrow> Condition" where
  "mkCondition t ty st rs ms =
     \<lparr>CondType = ty, CondStatus = st, ObservedGeneration = 0, LastTransitionTime = t,
      Reason = rs, CondMessage = ms\<rparr>"

definition upserted :: "Time \<Rightarrow> Condition \<Rightarrow> Condition list \<Rightarrow> Condition list" where
  "upserted t c cs =
     (case replaceCondition t c cs of (cs', found) \<Rightarrow> if found then cs' else cs' @ [c])"

subsection \<open>Example objects\<close>

text \<open>
  A request for the pod \<open>web-0\<close> of namespace \<open>default\<close>, an environment in which that pod
  exists, and a world in which nothing has been written yet.
\<close>

definition examplePod :: Pod where
  "examplePod = \<lparr>PodName = ''web-0'', PodNamespace = ''default'', PodUID = ''uid-1''\<rparr>"

definition exampleSpec :: "Interceptor list \<Rightarrow> EvictionRequestSpec" where
  "exampleSpec is =
     \<lparr>SpecType = ''Soft'',
      Target = \<lparr>PodRef = Some \<lparr>RefName = ''web-0'', RefUID = ''uid-1''\<rparr>\<rparr>,
      Requesters = [\<lparr>RequesterName = ''ops.example.com''\<rparr>],
      Interceptors = is,
      HeartbeatDeadlineSeconds = Some 1800\<rparr>"

definition emptyStatus :: EvictionRequestStatus where
  "emptyStatus =
     \<lparr>Conditions = [], Message = '''', ActiveInterceptorClass = None,
      ActiveInterceptorCompleted = False, HeartbeatTime = None,
      ExpectedInterceptorFinishTime = None, EvictionRequestCancellationPolicy = '''',
      PodEvictionStatus = None\<rparr>"

definition exampleRequest :: "Interceptor list \<Rightarrow> EvictionRequestStatus \<Rightarrow> EvictionRequest" where
  "exampleRequest is st =
     \<lparr>Namespace = ''default'', Name = ''evict-web-0'', Spec = exampleSpec is, Status = st\<rparr>"

definition exampleEnv :: "Time \<Rightarrow> error option \<Rightarrow> (nat \<Rightarrow> error option) \<Rightarrow> env" where
  "exampleEnv t evicted written =
     \<lparr>now = t,
      podLister = (\<lambda>ns n. if ns = ''default'' \<and> n = ''web-0'' then Found examplePod else NotFound),
      evictV1 = (\<lambda>ns n. evicted),
      updateStatus = written\<rparr>"

definition emptyWorld :: "EvictionRequestStatus \<Rightarrow> world" where
  "emptyWorld st = \<lparr>store = st, updateCalls = [], evictCalls = []\<rparr>"

definition interceptorA :: Interceptor where
  "interceptorA = \<lparr>InterceptorClass = ''a'', Priority = 10, Role = None\<rparr>"

definition interceptorB :: Interceptor where
  "interceptorB = \<lparr>InterceptorClass = ''b'', Priority = 20, Role = None\<rparr>"

definition interceptorC :: Interceptor where
  "interceptorC = \<lparr>InterceptorClass = ''c'', Priority = 30, Role = None\<rparr>"

definition evictedFalseAt5 :: Condition where
  "evictedFalseAt5 = mkCondition 5 ''Evicted'' ''False'' ''EvictionFailed'' ''Failed to evict pod''"

subsection \<open>The failure counter and the condition of type \<open>Evicted\<close>\<close>

text \<open>
  The counter a status holds: a nil \<^verbatim>\<open>PodEvictionStatus\<close> counts as 0, which is what
  \<^verbatim>\<open>IncrementFailedEvictionCounter\<close> starts from. The transition time an upsert of the
  \<open>Evicted\<close> condition with a given status value leaves.
\<close>

definition failedCounter :: "EvictionRequestStatus \<Rightarrow> int32" where
  "failedCounter st =
     (case PodEvictionStatus st of None \<Rightarrow> 0 | Some p \<Rightarrow> FailedAPIEvictionCounter p)"

definition evictedConditionTime :: "env \<Rightarrow> EvictionRequestStatus \<Rightarrow> string \<Rightarrow> Time" where
  "evictedConditionTime e st status =
     (case findCondition ConditionTypeEvicted (Conditions st) of
        None \<Rightarrow> now e
      | Some old \<Rightarrow> if CondStatus old = status then LastTransitionTime old else now e)"

definition conflictError :: error where
  "conflictError = ApiError ''the object has been modified; please apply your changes to the latest version and try again''"

definition budgetError :: error where
  "budgetError = ApiError ''Cannot evict pod as it would violate the pod's disruption budget.''"

definition maxedStatus :: EvictionRequestStatus where
  "maxedStatus = emptyStatus\<lparr>EvictionRequestCancellationPolicy := Allow,
      PodEvictionStatus := Some \<lparr>FailedAPIEvictionCounter = 2147483647\<rparr>\<rparr>"

subsection \<open>The states of the interceptor state machine\<close>

text \<open>
  No interceptor is selected when the class is nil or the empty string. The heartbeat
  deadline is exceeded when both the deadline and the heartbeat are set and more than
  the deadline's seconds lie between the heartbeat and now, in exact arithmetic.
\<close>

definition unselected :: "EvictionRequestStatus \<Rightarrow> bool" where
  "unselected st = (ActiveInterceptorClass st = None \<or> ActiveInterceptorClass st = Some '''')"

definition deadlineExceeded :: "env \<Rightarrow> EvictionRequest \<Rightarrow> bool" where
  "deadlineExceeded e r =
     (case (HeartbeatDeadlineSeconds (Spec r), HeartbeatTime (Status r)) of
        (Some seconds, Some heartbeat) \<Rightarrow> now e - heartbeat > sint seconds * 1000000000
      | _ \<Rightarrow> False)"

definition completedB :: EvictionRequestStatus where
  "completedB = emptyStatus\<lparr>ActiveInterceptorClass := Some ''b'',
      ActiveInterceptorCompleted := True, EvictionRequestCancellationPolicy := Allow\<rparr>"

definition pendingB :: "Time \<Rightarrow> EvictionRequestStatus" where
  "pendingB heartbeat = emptyStatus\<lparr>ActiveInterceptorClass := Some ''b'',
      HeartbeatTime := Some heartbeat, EvictionRequestCancellationPolicy := Allow\<rparr>"

text \<open>
  Whether the completed branch of the handler hands over (the active class is found in
  the order and is not its last entry), and the class that is active after one
  invocation of the handler.
\<close>

definition canAdvance :: "Interceptor list \<Rightarrow> EvictionRequestStatus \<Rightarrow> bool" where
  "canAdvance order st =
     (case ActiveInterceptorClass st of
        None \<Rightarrow> False
      | Some c \<Rightarrow> 0 \<le> findInterceptorIndex order c
                 \<and> findInterceptorIndex order c + 1 < int (length order))"

definition nextActive :: "Interceptor list \<Rightarrow> EvictionRequestStatus \<Rightarrow> string option" where
  "nextActive order st =
     (if unselected st then
        (case order of [] \<Rightarrow> ActiveInterceptorClass st | h # _ \<Rightarrow> Some (InterceptorClass h))
      else if ActiveInterceptorCompleted st \<and> canAdvance order st then
        (case ActiveInterceptorClass st of
           None \<Rightarrow> None
         | Some c \<Rightarrow> Some (InterceptorClass (order ! nat (findInterceptorIndex order c + 1))))
      else ActiveInterceptorClass st)"

subsection \<open>The Dispatcher's view of the target\<close>

text \<open>
  The target is present when the pod reference is set, the lister finds the pod and its
  UID is the recorded one: the Dispatcher goes on only then.
\<close>

definition targetPresent :: "env \<Rightarrow> EvictionRequest \<Rightarrow> bool" where
  "targetPresent e r =
     (case PodRef (Target (Spec r)) of
        None \<Rightarrow> False
      | Some ref \<Rightarrow>
          (case podLister e (Namespace r) (RefName ref) of
             Found pod \<Rightarrow> PodUID pod = RefUID ref
           | _ \<Rightarrow> False))"

definition nilTargetRequest :: EvictionRequest where
  "nilTargetRequest =
     (exampleRequest [] emptyStatus)\<lparr>Spec := (exampleSpec [])\<lparr>Target := \<lparr>PodRef = None\<rparr>\<rparr>\<rparr>"

subsection \<open>Runs of reconciliations\<close>

text \<open>
  A run over the stored object: before each invocation of the Dispatcher anyone may have
  written any status but for the active class, which only the handler assigns; the
  worker then reconciles the object as stored. \<open>handoffs\<close> lists the values the stored
  active class takes, in order, each time an invocation changes it. The position
  \<open>selected order j\<close> says that \<open>j\<close> interceptors of the order have been selected so far,
  and \<open>lastInOrder\<close> that a class is that of the order's last entry and of no other.
  The example runs reconcile at times 100, 200 and 300; the status written before the
  second and the third invocation reports completion (the run keeps the stored active
  class, whatever class that status carries).
\<close>

fun handoffs ::
  "((Interceptor \<Rightarrow> Interceptor \<Rightarrow> bool) \<Rightarrow> Interceptor list \<Rightarrow> Interceptor list)
     \<Rightarrow> EvictionRequest \<Rightarrow> (env \<times> EvictionRequestStatus) list \<Rightarrow> world
     \<Rightarrow> string option list" where
  "handoffs srt r [] w = []"
| "handoffs srt r ((e, written) # rest) w =
     (let w0 = w\<lparr>store := written\<lparr>ActiveInterceptorClass :=
                  ActiveInterceptorClass (store w)\<rparr>\<rparr>;
          w1 = snd (snd (ReconcileEvictionRequest srt e (r\<lparr>Status := store w0\<rparr>) w0))
      in (if ActiveInterceptorClass (store w1) \<noteq> ActiveInterceptorClass (store w0)
          then [ActiveInterceptorClass (store w1)] else [])
         @ handoffs srt r rest w1)"


definition selected :: "Interceptor list \<Rightarrow> nat \<Rightarrow> string option \<Rightarrow> bool" where
  "selected order j a =
     (if j = 0 then a = None \<or> a = Some ''''
      else j \<le> length order \<and> a = Some (InterceptorClass (order ! (j - 1))))"


definition twoReconciliations :: "(env \<times> EvictionRequestStatus) list" where
  "twoReconciliations =
     [(exampleEnv 100 None (\<lambda>_. None), emptyStatus),
      (exampleEnv 200 None (\<lambda>_. None), completedB)]"

definition threeReconciliations :: "(env \<times> EvictionRequestStatus) list" where
  "threeReconciliations =
     twoReconciliations @ [(exampleEnv 300 None (\<lambda>_. None), completedB)]"

subsection \<open>Two invocations in succession\<close>

text \<open>
  The Dispatcher invoked on the object a first invocation has left, in two environments
  (the same one twice where nothing outside has changed at all). A request is terminal
  when the Dispatcher routes it to the terminal eviction: it has no interceptors, or its
  active class is completed and the handler cannot advance. \<open>evictionOutcome\<close> is what
  the eviction call for the request's pod returns.
\<close>

definition reconcileTwice ::
  "((Interceptor \<Rightarrow> Interceptor \<Rightarrow> bool) \<Rightarrow> Interceptor list \<Rightarrow> Interceptor list)
     \<Rightarrow> env \<Rightarrow> env \<Rightarrow> EvictionRequest \<Rightarrow> world \<Rightarrow> outcome \<times> EvictionRequest \<times> world" where
  "reconcileTwice srt e e' r w =
     (case ReconcileEvictionRequest srt e r w of
        (_, r1, w1) \<Rightarrow> ReconcileEvictionRequest srt e' r1 w1)"

definition terminal ::
  "((Interceptor \<Rightarrow> Interceptor \<Rightarrow> bool) \<Rightarrow> Interceptor list \<Rightarrow> Interceptor list)
     \<Rightarrow> EvictionRequest \<Rightarrow> bool" where
  "terminal srt r =
     (Interceptors (Spec r) = []
      \<or> (\<not> unselected (Status r) \<and> ActiveInterceptorCompleted (Status r)
         \<and> \<not> canAdvance (sortInterceptorsByPriority srt (Interceptors (Spec r))) (Status r)))"

definition evictionOutcome :: "env \<Rightarrow> EvictionRequest \<Rightarrow> error option" where
  "evictionOutcome e r =
     (case PodRef (Target (Spec r)) of
        None \<Rightarrow> None
      | Some ref \<Rightarrow>
          (case podLister e (Namespace r) (RefName ref) of
             Found pod \<Rightarrow> evictV1 e (PodNamespace pod) (PodName pod)
           | _ \<Rightarrow> None))"

definition absentEnv :: env where
  "absentEnv = (exampleEnv 100 None (\<lambda>_. None))\<lparr>podLister := (\<lambda>ns n. NotFound)\<rparr>"

section \<open>Properties of the status manager\<close>

lemmas example_defs = examplePod_def exampleSpec_def emptyStatus_def exampleRequest_def
  exampleEnv_def emptyWorld_def interceptorA_def interceptorB_def

lemma triple: "x = (fst x, fst (snd x), snd (snd x))"
  by simp

subsection \<open>The status write\<close>

lemma UpdateStatus_calls: "updateCalls (snd (UpdateStatus e r w)) = updateCalls w @ [r]"
  by (simp add: UpdateStatus_def Let_def split: option.splits)

lemma UpdateStatus_evicts: "evictCalls (snd (UpdateStatus e r w)) = evictCalls w"
  by (simp add: UpdateStatus_def Let_def split: option.splits)

lemma UpdateStatus_store:
  "store (snd (UpdateStatus e r w)) =
     (case updateStatus e (length (updateCalls w)) of None \<Rightarrow> Status r | Some err \<Rightarrow> store w)"
  by (simp add: UpdateStatus_def Let_def split: option.splits)

lemma UpdateStatus_result:
  "fst (UpdateStatus e r w) = updateStatus e (length (updateCalls w))"
  by (simp add: UpdateStatus_def Let_def split: option.splits)

subsection \<open>The loop over the conditions\<close>

lemma replaceCondition_found:
  "snd (replaceCondition t c cs) = (findCondition (CondType c) cs \<noteq> None)"
  by (induction cs) (auto simp: findCondition_def split: prod.splits)

lemma replaceCondition_find:
  "findCondition (CondType c) cs = Some old \<Longrightarrow>
   findCondition (CondType c) (fst (replaceCondition t c cs)) =
     Some (c\<lparr>LastTransitionTime :=
               (if CondStatus old \<noteq> CondStatus c then t else LastTransitionTime old)\<rparr>)"
  by (induction cs) (auto simp: findCondition_def split: prod.splits)

lemma replaceCondition_types:
  "map CondType (fst (replaceCondition t c cs)) = map CondType cs"
  by (induction cs) (auto split: prod.splits)

lemma replaceCondition_notfound:
  "findCondition (CondType c) cs = None \<Longrightarrow> replaceCondition t c cs = (cs, False)"
  by (induction cs) (auto simp: findCondition_def split: prod.splits if_splits)

lemma findCondition_None_iff: "findCondition ty cs = None \<longleftrightarrow> ty \<notin> set (map CondType cs)"
  by (induction cs) (auto simp: findCondition_def)

lemma upserted_find_old:
  "findCondition (CondType c) cs = Some old \<Longrightarrow>
   findCondition (CondType c) (upserted t c cs) =
     Some (c\<lparr>LastTransitionTime :=
               (if CondStatus old \<noteq> CondStatus c then t else LastTransitionTime old)\<rparr>)"
  using replaceCondition_find[of c cs old t] replaceCondition_found[of t c cs]
  by (cases "replaceCondition t c cs") (auto simp: upserted_def)

lemma upserted_find_new:
  "findCondition (CondType c) cs = None \<Longrightarrow> upserted t c cs = cs @ [c]"
  by (simp add: upserted_def replaceCondition_notfound)

lemma upserted_types:
  "map CondType (upserted t c cs) =
     (if CondType c \<in> set (map CondType cs) then map CondType cs
      else map CondType cs @ [CondType c])"
  using replaceCondition_types[of t c cs] replaceCondition_found[of t c cs]
  by (auto simp: upserted_def findCondition_None_iff split: prod.splits)

lemma upserted_distinct:
  "distinct (map CondType cs) \<Longrightarrow> distinct (map CondType (upserted t c cs))"
  by (simp add: upserted_types)

subsection \<open>\<^verbatim>\<open>UpsertCondition\<close>, field by field\<close>

lemma Status_defaultCancellationPolicy [simp]:
  "Conditions (Status (defaultCancellationPolicy r)) = Conditions (Status r)"
  "PodEvictionStatus (Status (defaultCancellationPolicy r)) = PodEvictionStatus (Status r)"
  "ActiveInterceptorClass (Status (defaultCancellationPolicy r)) = ActiveInterceptorClass (Status r)"
  "ActiveInterceptorCompleted (Status (defaultCancellationPolicy r)) =
     ActiveInterceptorCompleted (Status r)"
  "HeartbeatTime (Status (defaultCancellationPolicy r)) = HeartbeatTime (Status r)"
  "EvictionRequestCancellationPolicy (Status (defaultCancellationPolicy r)) =
     (if EvictionRequestCancellationPolicy (Status r) = [] then Allow
      else EvictionRequestCancellationPolicy (Status r))"
  "Spec (defaultCancellationPolicy r) = Spec r"
  "Namespace (defaultCancellationPolicy r) = Namespace r"
  by (simp_all add: defaultCancellationPolicy_def)

lemma UpsertCondition_request:
  "fst (snd (UpsertCondition e r w ty st rs ms)) =
     defaultCancellationPolicy
       (r\<lparr>Status := (Status r)\<lparr>Conditions :=
            upserted (now e) (mkCondition (now e) ty st rs ms) (Conditions (Status r))\<rparr>\<rparr>)"
  by (simp add: UpsertCondition_def upserted_def mkCondition_def Let_def
           split: prod.splits option.splits)

lemma UpsertCondition_world:
  "snd (snd (UpsertCondition e r w ty st rs ms)) =
     snd (UpdateStatus e (fst (snd (UpsertCondition e r w ty st rs ms))) w)"
  by (simp add: UpsertCondition_def Let_def split: prod.splits option.splits)

lemma UpsertCondition_outcome:
  "fst (UpsertCondition e r w ty st rs ms) =
     (case updateStatus e (length (updateCalls w)) of None \<Rightarrow> Ok | Some err \<Rightarrow> Err err)"
  by (simp add: UpsertCondition_def UpdateStatus_def Let_def split: prod.splits option.splits)

text \<open>
  Claim C8. \<^verbatim>\<open>UpsertCondition\<close> merges a condition into the list by type. Where a
  condition of the type exists with the same status value, its \<^verbatim>\<open>LastTransitionTime\<close>
  is kept; where its status value differs the time is now; where the type is new the
  condition is appended with the time now. A list with at most one condition per type
  stays so. The cancellation policy is \<^verbatim>\<open>Allow\<close> where it was unset, already in the one
  object submitted to the one \<^verbatim>\<open>UpdateStatus\<close> call; the outcome is that call's, and on
  success the store holds the new status.
\<close>

theorem C8_UpsertCondition_merges_by_type:
  assumes "UpsertCondition e r w ty st rs ms = (out, r', w')"
  shows "(\<forall>old. findCondition ty (Conditions (Status r)) = Some old \<and> CondStatus old = st \<longrightarrow>
            findCondition ty (Conditions (Status r')) =
              Some (mkCondition (LastTransitionTime old) ty st rs ms))
       \<and> (\<forall>old. findCondition ty (Conditions (Status r)) = Some old \<and> CondStatus old \<noteq> st \<longrightarrow>
            findCondition ty (Conditions (Status r')) = Some (mkCondition (now e) ty st rs ms))
       \<and> (findCondition ty (Conditions (Status r)) = None \<longrightarrow>
            Conditions (Status r') = Conditions (Status r) @ [mkCondition (now e) ty st rs ms])
       \<and> (distinct (map CondType (Conditions (Status r))) \<longrightarrow>
            distinct (map CondType (Conditions (Status r'))))
       \<and> EvictionRequestCancellationPolicy (Status r') =
            (if EvictionRequestCancellationPolicy (Status r) = '''' then Allow
             else EvictionRequestCancellationPolicy (Status r))
       \<and> updateCalls w' = updateCalls w @ [r']
       \<and> out = (case updateStatus e (length (updateCalls w)) of
                   None \<Rightarrow> Ok | Some err \<Rightarrow> Err err)
       \<and> store w' = (case updateStatus e (length (updateCalls w)) of
                       None \<Rightarrow> Status r' | Some err \<Rightarrow> store w)"
proof -
  let ?c = "mkCondition (now e) ty st rs ms"
  have ty: "CondType ?c = ty" and st: "CondStatus ?c = st"
    by (simp_all add: mkCondition_def)
  have r': "r' = defaultCancellationPolicy
       (r\<lparr>Status := (Status r)\<lparr>Conditions := upserted (now e) ?c (Conditions (Status r))\<rparr>\<rparr>)"
    using UpsertCondition_request[of e r w ty st rs ms] assms by simp
  have w': "w' = snd (UpdateStatus e r' w)"
    using UpsertCondition_world[of e r w ty st rs ms] assms by simp
  have out: "out = (case updateStatus e (length (updateCalls w)) of
                      None \<Rightarrow> Ok | Some err \<Rightarrow> Err err)"
    using UpsertCondition_outcome[of e r w ty st rs ms] assms by simp
  have cs: "Conditions (Status r') = upserted (now e) ?c (Conditions (Status r))"
    by (simp add: r')
  have kept: "\<forall>old. findCondition ty (Conditions (Status r)) = Some old \<and> CondStatus old = st \<longrightarrow>
            findCondition ty (Conditions (Status r')) =
              Some (mkCondition (LastTransitionTime old) ty st rs ms)"
    using upserted_find_old[of ?c "Conditions (Status r)" _ "now e"]
    by (auto simp: cs ty st) (simp add: mkCondition_def)
  have changed: "\<forall>old. findCondition ty (Conditions (Status r)) = Some old \<and> CondStatus old \<noteq> st \<longrightarrow>
            findCondition ty (Conditions (Status r')) = Some (mkCondition (now e) ty st rs ms)"
    using upserted_find_old[of ?c "Conditions (Status r)" _ "now e"]
    by (auto simp: cs ty st) (simp add: mkCondition_def)
  have new: "findCondition ty (Conditions (Status r)) = None \<longrightarrow>
            Conditions (Status r') = Conditions (Status r) @ [?c]"
    using upserted_find_new[of ?c "Conditions (Status r)" "now e"] by (simp add: cs ty)
  have unique: "distinct (map CondType (Conditions (Status r))) \<longrightarrow>
            distinct (map CondType (Conditions (Status r')))"
    by (simp add: cs upserted_distinct)
  have policy: "EvictionRequestCancellationPolicy (Status r') =
            (if EvictionRequestCancellationPolicy (Status r) = '''' then Allow
             else EvictionRequestCancellationPolicy (Status r))"
    by (simp add: r')
  have calls: "updateCalls w' = updateCalls w @ [r']"
    by (simp add: w' UpdateStatus_calls)
  have stored: "store w' = (case updateStatus e (length (updateCalls w)) of
                              None \<Rightarrow> Status r' | Some err \<Rightarrow> store w)"
    by (simp add: w' UpdateStatus_store)
  from kept changed new unique policy calls out stored show ?thesis by blast
qed

text \<open>
  The three cases on one request that holds an \<open>Evicted\<close> condition of status \<open>False\<close>
  since time 5, at time 100: the same status again, the status \<open>True\<close>, and a condition
  of the new type \<open>Ready\<close>.
\<close>

theorem C8_UpsertCondition_merges_by_type_witness:
  "findCondition ''Evicted'' (Conditions (emptyStatus\<lparr>Conditions := [evictedFalseAt5]\<rparr>)) =
       Some evictedFalseAt5
   \<and> findCondition ''Evicted'' (Conditions (Status (fst (snd
        (UpsertCondition (exampleEnv 100 None (\<lambda>_. None))
           (exampleRequest [] (emptyStatus\<lparr>Conditions := [evictedFalseAt5]\<rparr>))
           (emptyWorld emptyStatus)
           ''Evicted'' ''False'' ''EvictionFailed'' ''again''))))) =
       Some (mkCondition 5 ''Evicted'' ''False'' ''EvictionFailed'' ''again'')
   \<and> findCondition ''Evicted'' (Conditions (Status (fst (snd
        (UpsertCondition (exampleEnv 100 None (\<lambda>_. None))
           (exampleRequest [] (emptyStatus\<lparr>Conditions := [evictedFalseAt5]\<rparr>))
           (emptyWorld emptyStatus)
           ''Evicted'' ''True'' ''EvictionSucceeded'' ''done''))))) =
       Some (mkCondition 100 ''Evicted'' ''True'' ''EvictionSucceeded'' ''done'')
   \<and> Conditions (Status (fst (snd
        (UpsertCondition (exampleEnv 100 None (\<lambda>_. None))
           (exampleRequest [] (emptyStatus\<lparr>Conditions := [evictedFalseAt5]\<rparr>))
           (emptyWorld emptyStatus)
           ''Ready'' ''False'' ''PodNotFound'' ''gone'')))) =
       [evictedFalseAt5, mkCondition 100 ''Ready'' ''False'' ''PodNotFound'' ''gone'']
   \<and> distinct (map CondType (Conditions (emptyStatus\<lparr>Conditions := [evictedFalseAt5]\<rparr>)))
   \<and> distinct (map CondType (Conditions (Status (fst (snd
        (UpsertCondition (exampleEnv 100 None (\<lambda>_. None))
           (exampleRequest [] (emptyStatus\<lparr>Conditions := [evictedFalseAt5]\<rparr>))
           (emptyWorld emptyStatus)
           ''Ready'' ''False'' ''PodNotFound'' ''gone''))))))"
  using C8_UpsertCondition_merges_by_type
          [OF triple, where e = "exampleEnv 100 None (\<lambda>_. None)"
             and r = "exampleRequest [] (emptyStatus\<lparr>Conditions := [evictedFalseAt5]\<rparr>)"
             and w = "emptyWorld emptyStatus" and ty = "''Evicted''" and st = "''False''"
             and rs = "''EvictionFailed''" and ms = "''again''"]
        C8_UpsertCondition_merges_by_type
          [OF triple, where e = "exampleEnv 100 None (\<lambda>_. None)"
             and r = "exampleRequest [] (emptyStatus\<lparr>Conditions := [evictedFalseAt5]\<rparr>)"
             and w = "emptyWorld emptyStatus" and ty = "''Evicted''" and st = "''True''"
             and rs = "''EvictionSucceeded''" and ms = "''done''"]
        C8_UpsertCondition_merges_by_type
          [OF triple, where e = "exampleEnv 100 None (\<lambda>_. None)"
             and r = "exampleRequest [] (emptyStatus\<lparr>Conditions := [evictedFalseAt5]\<rparr>)"
             and w = "emptyWorld emptyStatus" and ty = "''Ready''" and st = "''False''"
             and rs = "''PodNotFound''" and ms = "''gone''"]
  by (simp add: example_defs evictedFalseAt5_def findCondition_def mkCondition_def)

section \<open>Properties of the terminal eviction performer\<close>

subsection \<open>The counter\<close>

lemma sint_succ:
  fixes c :: int32
  assumes "sint c < 2147483647"
  shows "sint (c + 1) = sint c + 1"
proof -
  have "- (2 ^ 31) \<le> sint c" using sint_ge[of c] by simp
  then show ?thesis using assms
    by (simp add: sint_word_ariths signed_take_bit_int_eq_self)
qed

lemma failedCounter_defaultCancellationPolicy [simp]:
  "failedCounter (Status (defaultCancellationPolicy r)) = failedCounter (Status r)"
  by (simp add: failedCounter_def)

lemma returned_as_is:
  assumes "\<And>p. fst x \<noteq> Panic p"
  shows "(case x of (Err err, r3, w3) \<Rightarrow> (Err err, r3, w3) | (_, r3, w3) \<Rightarrow> (Ok, r3, w3)) = x"
  using assms by (cases x; cases "fst x") auto

lemma UpsertCondition_no_panic: "fst (UpsertCondition e r w a b c d) \<noteq> Panic p"
  by (simp add: UpsertCondition_outcome split: option.splits)

lemma incremented_status:
  "(case PodEvictionStatus st of None \<Rightarrow> \<lparr>FailedAPIEvictionCounter = 0\<rparr> | Some p \<Rightarrow> p)
     \<lparr>FailedAPIEvictionCounter :=
        FailedAPIEvictionCounter
          (case PodEvictionStatus st of
             None \<Rightarrow> \<lparr>FailedAPIEvictionCounter = 0\<rparr> | Some p \<Rightarrow> p) + 1\<rparr>
   = \<lparr>FailedAPIEvictionCounter = failedCounter st + 1\<rparr>"
  by (cases "PodEvictionStatus st") (auto simp: failedCounter_def)

lemma IncrementFailedEvictionCounter_eq:
  "IncrementFailedEvictionCounter e r w =
     UpsertCondition e
       (defaultCancellationPolicy
          (r\<lparr>Status := (Status r)\<lparr>PodEvictionStatus :=
               Some \<lparr>FailedAPIEvictionCounter = failedCounter (Status r) + 1\<rparr>\<rparr>\<rparr>))
       w ConditionTypeEvicted ConditionFalse ReasonEvictionFailed ''Failed to evict pod''"
  unfolding IncrementFailedEvictionCounter_def Let_def incremented_status
  by (rule returned_as_is) (rule UpsertCondition_no_panic)

subsection \<open>What an upsert leaves\<close>

lemma upserted_find:
  "findCondition (CondType c) (upserted t c cs) =
     Some (c\<lparr>LastTransitionTime :=
               (case findCondition (CondType c) cs of
                  None \<Rightarrow> LastTransitionTime c
                | Some old \<Rightarrow>
                    if CondStatus old = CondStatus c then LastTransitionTime old else t)\<rparr>)"
proof (cases "findCondition (CondType c) cs")
  case None
  then have "CondType c \<notin> set (map CondType cs)" by (simp add: findCondition_None_iff)
  then have "findCondition (CondType c) (cs @ [c]) = Some c"
    by (induction cs) (auto simp: findCondition_def)
  with None show ?thesis by (simp add: upserted_find_new)
next
  case (Some old)
  then show ?thesis by (simp add: upserted_find_old)
qed

lemma UpsertCondition_find:
  "findCondition ty (Conditions (Status (fst (snd (UpsertCondition e r w ty st rs ms))))) =
     Some (mkCondition
             (case findCondition ty (Conditions (Status r)) of
                None \<Rightarrow> now e
              | Some old \<Rightarrow> if CondStatus old = st then LastTransitionTime old else now e)
             ty st rs ms)"
  using upserted_find[of "mkCondition (now e) ty st rs ms" "now e" "Conditions (Status r)"]
  by (simp add: UpsertCondition_request) (simp add: mkCondition_def split: option.splits)

lemma UpsertCondition_frame:
  "PodEvictionStatus (Status (fst (snd (UpsertCondition e r w ty st rs ms)))) =
     PodEvictionStatus (Status r)"
  "ActiveInterceptorClass (Status (fst (snd (UpsertCondition e r w ty st rs ms)))) =
     ActiveInterceptorClass (Status r)"
  "ActiveInterceptorCompleted (Status (fst (snd (UpsertCondition e r w ty st rs ms)))) =
     ActiveInterceptorCompleted (Status r)"
  "HeartbeatTime (Status (fst (snd (UpsertCondition e r w ty st rs ms)))) =
     HeartbeatTime (Status r)"
  "Spec (fst (snd (UpsertCondition e r w ty st rs ms))) = Spec r"
  "Namespace (fst (snd (UpsertCondition e r w ty st rs ms))) = Namespace r"
  by (simp_all add: UpsertCondition_request)

lemma UpsertCondition_calls:
  "updateCalls (snd (snd (UpsertCondition e r w ty st rs ms))) =
     updateCalls w @ [fst (snd (UpsertCondition e r w ty st rs ms))]"
  "evictCalls (snd (snd (UpsertCondition e r w ty st rs ms))) = evictCalls w"
  "store (snd (snd (UpsertCondition e r w ty st rs ms))) =
     (case updateStatus e (length (updateCalls w)) of
        None \<Rightarrow> Status (fst (snd (UpsertCondition e r w ty st rs ms)))
      | Some err \<Rightarrow> store w)"
  by (simp_all add: UpsertCondition_world UpdateStatus_calls UpdateStatus_evicts
        UpdateStatus_store)

subsection \<open>The branches of \<^verbatim>\<open>Perform\<close>\<close>

lemma Perform_evict_failed:
  assumes "PodRef (Target (Spec r)) = Some ref"
      and "podLister e (Namespace r) (RefName ref) = Found pod"
      and "evictV1 e (PodNamespace pod) (PodName pod) = Some err"
  shows "Perform e r w =
           (Err (Errorf ''failed to evict pod'' err),
            snd (IncrementFailedEvictionCounter e r
                   (w\<lparr>evictCalls := evictCalls w @ [(PodNamespace pod, PodName pod)]\<rparr>)))"
  using assms by (simp add: Perform_def Let_def split: prod.splits)


text \<open>
  Claim C6. When the eviction call for the target fails, \<^verbatim>\<open>Perform\<close> leaves the counter
  one higher in int32 arithmetic (a nil \<^verbatim>\<open>PodEvictionStatus\<close> counting as 0; below the
  greatest int32 that is the number plus 1), leaves the condition \<open>Evicted\<close> with status
  \<open>False\<close> and reason \<open>EvictionFailed\<close>, and returns the eviction's error wrapped. The one
  eviction and the one status write, of the object as returned, are the calls made.
\<close>

theorem C6_failed_eviction_is_counted:
  assumes "PodRef (Target (Spec r)) = Some ref"
      and "podLister e (Namespace r) (RefName ref) = Found pod"
      and "evictV1 e (PodNamespace pod) (PodName pod) = Some err"
      and "Perform e r w = (out, r', w')"
  shows "PodEvictionStatus (Status r') =
           Some \<lparr>FailedAPIEvictionCounter = failedCounter (Status r) + 1\<rparr>
       \<and> (sint (failedCounter (Status r)) < 2147483647 \<longrightarrow>
            sint (failedCounter (Status r')) = sint (failedCounter (Status r)) + 1)
       \<and> findCondition ConditionTypeEvicted (Conditions (Status r')) =
           Some (mkCondition (evictedConditionTime e (Status r) ConditionFalse)
                   ConditionTypeEvicted ConditionFalse ReasonEvictionFailed ''Failed to evict pod'')
       \<and> out = Err (Errorf ''failed to evict pod'' err)
       \<and> evictCalls w' = evictCalls w @ [(PodNamespace pod, PodName pod)]
       \<and> updateCalls w' = updateCalls w @ [r']
       \<and> store w' = (case updateStatus e (length (updateCalls w)) of
                       None \<Rightarrow> Status r' | Some _ \<Rightarrow> store w)"
proof -
  let ?w1 = "w\<lparr>evictCalls := evictCalls w @ [(PodNamespace pod, PodName pod)]\<rparr>"
  let ?r2 = "defaultCancellationPolicy
          (r\<lparr>Status := (Status r)\<lparr>PodEvictionStatus :=
               Some \<lparr>FailedAPIEvictionCounter = failedCounter (Status r) + 1\<rparr>\<rparr>\<rparr>)"
  let ?u = "UpsertCondition e ?r2 ?w1 ConditionTypeEvicted ConditionFalse ReasonEvictionFailed
              ''Failed to evict pod''"
  have eq: "(out, r', w') = (Err (Errorf ''failed to evict pod'' err), snd ?u)"
    using Perform_evict_failed[OF assms(1-3), of w] assms(4)
    by (simp add: IncrementFailedEvictionCounter_eq)
  then have out: "out = Err (Errorf ''failed to evict pod'' err)"
    and r': "r' = fst (snd ?u)" and w': "w' = snd (snd ?u)"
    by (simp_all add: prod_eq_iff)
  have counter: "PodEvictionStatus (Status r') =
           Some \<lparr>FailedAPIEvictionCounter = failedCounter (Status r) + 1\<rparr>"
    by (simp add: r' UpsertCondition_frame)
  then have c': "failedCounter (Status r') = failedCounter (Status r) + 1"
    by (simp add: failedCounter_def)
  have numeric: "sint (failedCounter (Status r)) < 2147483647 \<longrightarrow>
            sint (failedCounter (Status r')) = sint (failedCounter (Status r)) + 1"
    by (simp add: c' sint_succ)
  have cond: "findCondition ConditionTypeEvicted (Conditions (Status r')) =
           Some (mkCondition (evictedConditionTime e (Status r) ConditionFalse)
                   ConditionTypeEvicted ConditionFalse ReasonEvictionFailed ''Failed to evict pod'')"
    by (simp add: r' UpsertCondition_find evictedConditionTime_def)
  have ev: "evictCalls w' = evictCalls w @ [(PodNamespace pod, PodName pod)]"
    by (simp add: w' UpsertCondition_calls)
  have up: "updateCalls w' = updateCalls w @ [r']"
    by (simp add: w' r' UpsertCondition_calls)
  have st: "store w' = (case updateStatus e (length (updateCalls w)) of
                       None \<Rightarrow> Status r' | Some _ \<Rightarrow> store w)"
    by (simp add: w' r' UpsertCondition_calls split: option.splits)
  from counter numeric cond out ev up st show ?thesis by blast
qed

text \<open>
  Scenario E: no interceptors, the pod exists, the eviction is blocked by a disruption
  budget; the counter goes from unset to 1.
\<close>

theorem C6_failed_eviction_is_counted_witness:
  "sint (failedCounter emptyStatus) < 2147483647
   \<and> sint (failedCounter (Status (fst (snd
      (Perform (exampleEnv 100 (Some budgetError) (\<lambda>_. None))
         (exampleRequest [] emptyStatus) (emptyWorld emptyStatus)))))) = 1
   \<and> PodEvictionStatus (Status (fst (snd
      (Perform (exampleEnv 100 (Some budgetError) (\<lambda>_. None))
         (exampleRequest [] emptyStatus) (emptyWorld emptyStatus))))) =
     Some \<lparr>FailedAPIEvictionCounter = 1\<rparr>
   \<and> findCondition ''Evicted'' (Conditions (Status (fst (snd
      (Perform (exampleEnv 100 (Some budgetError) (\<lambda>_. None))
         (exampleRequest [] emptyStatus) (emptyWorld emptyStatus)))))) =
     Some (mkCondition 100 ''Evicted'' ''False'' ''EvictionFailed'' ''Failed to evict pod'')
   \<and> fst (Perform (exampleEnv 100 (Some budgetError) (\<lambda>_. None))
         (exampleRequest [] emptyStatus) (emptyWorld emptyStatus)) =
     Err (Errorf ''failed to evict pod'' budgetError)"
  using C6_failed_eviction_is_counted
          [OF _ _ _ triple, where e = "exampleEnv 100 (Some budgetError) (\<lambda>_. None)"
             and r = "exampleRequest [] emptyStatus" and w = "emptyWorld emptyStatus"
             and ref = "\<lparr>RefName = ''web-0'', RefUID = ''uid-1''\<rparr>" and pod = examplePod]
  by (simp add: example_defs failedCounter_def findCondition_def mkCondition_def
        evictedConditionTime_def ConditionTypeEvicted_def ConditionFalse_def
        ReasonEvictionFailed_def)

text \<open>
  Claim C9 (the code departs from it). \<^verbatim>\<open>Perform\<close> drops what its status writes return.
  With no interceptors, the pod present and the eviction succeeding, a failing
  \<^verbatim>\<open>UpdateStatus\<close> leaves the store without the \<open>Evicted\<close> condition, and \<^verbatim>\<open>Perform\<close>
  still returns nil; so does \<^verbatim>\<open>ReconcileEvictionRequest\<close> when its own write of the
  policy default succeeds and the next write fails.
\<close>

theorem C9_Perform_drops_the_status_write_failure:
  "fst (Perform (exampleEnv 100 None (\<lambda>_. Some conflictError))
          (exampleRequest [] emptyStatus) (emptyWorld emptyStatus)) = Ok
   \<and> store (snd (snd (Perform (exampleEnv 100 None (\<lambda>_. Some conflictError))
          (exampleRequest [] emptyStatus) (emptyWorld emptyStatus)))) = emptyStatus
   \<and> length (updateCalls (snd (snd (Perform (exampleEnv 100 None (\<lambda>_. Some conflictError))
          (exampleRequest [] emptyStatus) (emptyWorld emptyStatus))))) = 1
   \<and> fst (ReconcileEvictionRequest insertionSortLessFunc
          (exampleEnv 100 None (\<lambda>n. if n = 0 then None else Some conflictError))
          (exampleRequest [] emptyStatus) (emptyWorld emptyStatus)) = Ok
   \<and> Conditions (store (snd (snd (ReconcileEvictionRequest insertionSortLessFunc
          (exampleEnv 100 None (\<lambda>n. if n = 0 then None else Some conflictError))
          (exampleRequest [] emptyStatus) (emptyWorld emptyStatus))))) = []"
  by (simp add: example_defs Perform_def ReconcileEvictionRequest_def routeRequest_def
        UpsertCondition_def UpdateStatus_def defaultCancellationPolicy_def Let_def
        ConditionTypeEvicted_def ConditionTrue_def ReasonEvictionSucceeded_def Allow_def)

text \<open>For every request: the outcome of \<^verbatim>\<open>Perform\<close> does not depend on its status writes.\<close>

lemma Perform_outcome_ignores_status_writes:
  "fst (Perform (e\<lparr>updateStatus := u\<rparr>) r w) = fst (Perform e r w)"
  by (simp add: Perform_def Let_def split: option.splits lookup.splits prod.splits)

text \<open>
  Claim C7 (the code departs from it). \<^verbatim>\<open>FailedAPIEvictionCounter++\<close> is an int32
  increment: from the greatest int32, one more failed eviction leaves the least one, in
  the object and in the store.
\<close>

theorem C7_counter_wraps_at_the_int32_maximum:
  "sint (failedCounter maxedStatus) = 2147483647
   \<and> sint (failedCounter (Status (fst (snd
        (ReconcileEvictionRequest insertionSortLessFunc
           (exampleEnv 100 (Some budgetError) (\<lambda>_. None))
           (exampleRequest [] maxedStatus) (emptyWorld maxedStatus)))))) = - 2147483648
   \<and> sint (failedCounter (store (snd (snd
        (ReconcileEvictionRequest insertionSortLessFunc
           (exampleEnv 100 (Some budgetError) (\<lambda>_. None))
           (exampleRequest [] maxedStatus) (emptyWorld maxedStatus)))))) = - 2147483648"
  by (simp add: example_defs maxedStatus_def failedCounter_def Perform_def
        ReconcileEvictionRequest_def routeRequest_def IncrementFailedEvictionCounter_def
        UpsertCondition_def UpdateStatus_def defaultCancellationPolicy_def Let_def
        ConditionTypeEvicted_def ConditionFalse_def ReasonEvictionFailed_def Allow_def)

section \<open>Properties of the interceptor state machine\<close>

lemmas eval_defs = Handle_def sortInterceptorsByPriority_def insertionSortLessFunc_def
  byPriority_def selectInitialInterceptor_def handleCompletedInterceptor_def
  selectNextInterceptor_def checkInterceptorTimeout_def markInterceptorAsCompleted_def
  waitForProgress_def updateEvictionRequestStatus_def UpdateStatus_def Perform_def
  IncrementFailedEvictionCounter_def UpsertCondition_def defaultCancellationPolicy_def
  ReconcileEvictionRequest_def routeRequest_def time_Since_def time_Sub_def
  maxDuration_def minDuration_def Second_def Let_def
  ConditionTypeEvicted_def ConditionTypeReady_def ConditionTrue_def ConditionFalse_def
  ReasonEvictionSucceeded_def ReasonEvictionFailed_def ReasonPodNotFound_def Allow_def

subsection \<open>The sort\<close>

lemma mset_sink: "mset (sink lt x rs) = add_mset x (mset rs)"
  by (induction rs) auto

lemma set_sink: "set (sink lt x rs) = insert x (set rs)"
  by (induction rs) auto

lemma mset_foldl_sink: "mset (foldl (\<lambda>rs x. sink lt x rs) acc xs) = mset xs + mset acc"
  by (induction xs arbitrary: acc) (auto simp: mset_sink)

lemma mset_insertionSortLessFunc: "mset (insertionSortLessFunc lt xs) = mset xs"
  by (simp add: insertionSortLessFunc_def mset_foldl_sink)

lemma sorted_sink:
  "sorted_wrt (\<lambda>a b. \<not> byPriority a b) rs \<Longrightarrow>
   sorted_wrt (\<lambda>a b. \<not> byPriority a b) (sink byPriority x rs)"
  by (induction rs) (auto simp: set_sink byPriority_def)

lemma sorted_foldl_sink:
  "sorted_wrt (\<lambda>a b. \<not> byPriority a b) acc \<Longrightarrow>
   sorted_wrt (\<lambda>a b. \<not> byPriority a b) (foldl (\<lambda>rs x. sink byPriority x rs) acc xs)"
  by (induction xs arbitrary: acc) (auto simp: sorted_sink)

lemma sorted_insertionSortLessFunc:
  "sorted_wrt (\<lambda>a b. \<not> byPriority b a) (insertionSortLessFunc byPriority xs)"
  using sorted_foldl_sink[of "[]" xs]
  by (simp add: insertionSortLessFunc_def sorted_wrt_rev)

text \<open>Go's insertion sort keeps the contract of \<^verbatim>\<open>sort.Slice\<close>.\<close>

lemma insertionSortLessFunc_contract: "sort_Slice_contract insertionSortLessFunc"
  by (simp add: sort_Slice_contract_def mset_insertionSortLessFunc sorted_insertionSortLessFunc)

lemma sorted_mset:
  "sort_Slice_contract srt \<Longrightarrow> mset (sortInterceptorsByPriority srt xs) = mset xs"
  by (simp add: sort_Slice_contract_def sortInterceptorsByPriority_def)

lemma sorted_set:
  "sort_Slice_contract srt \<Longrightarrow> set (sortInterceptorsByPriority srt xs) = set xs"
  using sorted_mset[of srt xs] by (metis set_mset_mset)

lemma sorted_length:
  "sort_Slice_contract srt \<Longrightarrow> length (sortInterceptorsByPriority srt xs) = length xs"
  using sorted_mset[of srt xs] by (metis size_mset)

lemma sorted_distinct_classes:
  assumes "sort_Slice_contract srt"
  shows "distinct (map InterceptorClass (sortInterceptorsByPriority srt xs)) =
         distinct (map InterceptorClass xs)"
proof -
  have "mset (map InterceptorClass (sortInterceptorsByPriority srt xs)) =
        mset (map InterceptorClass xs)"
    using sorted_mset[OF assms, of xs] by (metis mset_map)
  then show ?thesis by (metis mset_eq_imp_distinct_iff)
qed

lemma sorted_descending:
  "sort_Slice_contract srt \<Longrightarrow>
   sorted_wrt (\<lambda>a b. sint (Priority b) \<le> sint (Priority a))
     (sortInterceptorsByPriority srt xs)"
  by (simp add: sort_Slice_contract_def sortInterceptorsByPriority_def byPriority_def not_less)

lemma sorted_head_highest:
  assumes "sort_Slice_contract srt" and "sortInterceptorsByPriority srt xs = h # rest"
  shows "h \<in> set xs \<and> (\<forall>x \<in> set xs. sint (Priority x) \<le> sint (Priority h))"
proof -
  have s: "set xs = insert h (set rest)"
    using sorted_set[OF assms(1), of xs] assms(2) by simp
  have "\<forall>x \<in> set rest. sint (Priority x) \<le> sint (Priority h)"
    using sorted_descending[OF assms(1), of xs] assms(2) by simp
  with s show ?thesis by auto
qed

subsection \<open>The index of a class\<close>

lemma findInterceptorIndex_range:
  "- 1 \<le> findInterceptorIndex xs c \<and> findInterceptorIndex xs c < int (length xs)"
  by (induction xs) (auto simp: Let_def)

lemma findInterceptorIndex_absent:
  "(findInterceptorIndex xs c < 0) = (c \<notin> InterceptorClass ` set xs)"
  using findInterceptorIndex_range by (induction xs) (auto simp: Let_def)

lemma findInterceptorIndex_nth:
  "k < length xs \<Longrightarrow> InterceptorClass (xs ! k) \<notin> InterceptorClass ` set (take k xs) \<Longrightarrow>
   findInterceptorIndex xs (InterceptorClass (xs ! k)) = int k"
proof (induction xs arbitrary: k)
  case Nil
  then show ?case by simp
next
  case (Cons x xs)
  show ?case
  proof (cases k)
    case 0
    then show ?thesis by simp
  next
    case (Suc j)
    with Cons.prems have "j < length xs"
      and "InterceptorClass (xs ! j) \<notin> InterceptorClass ` set (take j xs)"
      and "InterceptorClass x \<noteq> InterceptorClass (xs ! j)"
      by auto
    with Cons.IH[of j] Suc show ?thesis by (simp add: Let_def)
  qed
qed

lemma findInterceptorIndex_distinct:
  "distinct (map InterceptorClass xs) \<Longrightarrow> k < length xs \<Longrightarrow>
   findInterceptorIndex xs (InterceptorClass (xs ! k)) = int k"
proof (rule findInterceptorIndex_nth)
  assume d: "distinct (map InterceptorClass xs)" and k: "k < length xs"
  show "k < length xs" by (rule k)
  have "xs = take k xs @ xs ! k # drop (Suc k) xs" using k by (simp add: id_take_nth_drop)
  then have "map InterceptorClass xs =
      map InterceptorClass (take k xs) @ InterceptorClass (xs ! k) #
        map InterceptorClass (drop (Suc k) xs)"
    by (metis list.simps(9) map_append)
  with d have "distinct (map InterceptorClass (take k xs) @ InterceptorClass (xs ! k) #
        map InterceptorClass (drop (Suc k) xs))"
    by simp
  then show "InterceptorClass (xs ! k) \<notin> InterceptorClass ` set (take k xs)" by auto
qed

subsection \<open>The three states of \<^verbatim>\<open>Handle\<close>\<close>

lemma updateEvictionRequestStatus_eq:
  "updateEvictionRequestStatus e r w =
     ((case updateStatus e (length (updateCalls w)) of None \<Rightarrow> Ok | Some err \<Rightarrow> Err err),
      r, snd (UpdateStatus e r w))"
  by (simp add: updateEvictionRequestStatus_def UpdateStatus_def Let_def split: option.splits)

lemma Handle_unselected:
  assumes "unselected (Status r)"
      and "sortInterceptorsByPriority srt (Interceptors (Spec r)) = h # rest"
  shows "Handle srt e r w =
           updateEvictionRequestStatus e
             (r\<lparr>Status := (Status r)\<lparr>ActiveInterceptorClass := Some (InterceptorClass h)\<rparr>\<rparr>) w"
  using assms by (auto simp: Handle_def unselected_def selectInitialInterceptor_def Let_def)

lemma Handle_completed_next:
  assumes "ActiveInterceptorClass (Status r) = Some c" and "c \<noteq> ''''"
      and "ActiveInterceptorCompleted (Status r)"
      and "0 \<le> findInterceptorIndex (sortInterceptorsByPriority srt (Interceptors (Spec r))) c"
      and "findInterceptorIndex (sortInterceptorsByPriority srt (Interceptors (Spec r))) c + 1
             < int (length (sortInterceptorsByPriority srt (Interceptors (Spec r))))"
  shows "Handle srt e r w =
           updateEvictionRequestStatus e
             (r\<lparr>Status := (Status r)\<lparr>ActiveInterceptorClass :=
                  Some (InterceptorClass
                    (sortInterceptorsByPriority srt (Interceptors (Spec r)) !
                       nat (findInterceptorIndex
                              (sortInterceptorsByPriority srt (Interceptors (Spec r))) c + 1)))\<rparr>\<rparr>) w"
  using assms
  by (simp add: Handle_def handleCompletedInterceptor_def selectNextInterceptor_def Let_def)


text \<open>
  The saturation of \<^verbatim>\<open>time.Since\<close> never decides the comparison with a deadline of int32
  seconds.
\<close>

lemma time_Since_exceeds:
  "(time_Since e heartbeat > sint (seconds :: int32) * Second) =
   (now e - heartbeat > sint seconds * 1000000000)"
proof -
  have "- (2 ^ 31) \<le> sint seconds" "sint seconds < 2 ^ 31"
    using sint_ge[of seconds] sint_lt[of seconds] by simp_all
  then show ?thesis
    by (auto simp: time_Since_def time_Sub_def Let_def maxDuration_def minDuration_def Second_def)
qed

lemma Handle_pending:
  assumes "ActiveInterceptorClass (Status r) = Some c" and "c \<noteq> ''''"
      and "\<not> ActiveInterceptorCompleted (Status r)"
  shows "Handle srt e r w =
           (if deadlineExceeded e r
            then updateEvictionRequestStatus e
                   (r\<lparr>Status := (Status r)\<lparr>ActiveInterceptorCompleted := True\<rparr>\<rparr>) w
            else (Ok, r, w))"
  using assms
  by (auto simp: Handle_def checkInterceptorTimeout_def markInterceptorAsCompleted_def
        waitForProgress_def deadlineExceeded_def time_Since_exceeds Let_def
        split: option.splits)

text \<open>
  Claim C3. With an active interceptor class set and not completed, one invocation of
  the handler whose heartbeat deadline is exceeded sets \<^verbatim>\<open>ActiveInterceptorCompleted\<close>
  and nothing else, keeps the active class, and submits that object in one
  \<^verbatim>\<open>UpdateStatus\<close> call whose outcome it returns; with the deadline not exceeded it leaves
  the object and the world as they are and returns nil. An invocation of the Dispatcher
  that finds the target, with the cancellation policy already set, is this invocation
  of the handler.
\<close>

theorem C3_heartbeat_deadline:
  assumes "ActiveInterceptorClass (Status r) = Some c" and "c \<noteq> ''''"
      and "\<not> ActiveInterceptorCompleted (Status r)"
      and "Handle srt e r w = (out, r', w')"
  shows "(deadlineExceeded e r \<longrightarrow>
            r' = r\<lparr>Status := (Status r)\<lparr>ActiveInterceptorCompleted := True\<rparr>\<rparr>
          \<and> ActiveInterceptorClass (Status r') = Some c
          \<and> updateCalls w' = updateCalls w @ [r']
          \<and> evictCalls w' = evictCalls w
          \<and> out = (case updateStatus e (length (updateCalls w)) of
                      None \<Rightarrow> Ok | Some err \<Rightarrow> Err err)
          \<and> store w' = (case updateStatus e (length (updateCalls w)) of
                          None \<Rightarrow> Status r' | Some err \<Rightarrow> store w))
       \<and> (\<not> deadlineExceeded e r \<longrightarrow> r' = r \<and> w' = w \<and> out = Ok)
       \<and> (targetPresent e r \<and> EvictionRequestCancellationPolicy (Status r) \<noteq> ''''
            \<and> Interceptors (Spec r) \<noteq> [] \<longrightarrow>
              ReconcileEvictionRequest srt e r w = (out, r', w'))"
proof -
  have handler: "(deadlineExceeded e r \<longrightarrow>
            r' = r\<lparr>Status := (Status r)\<lparr>ActiveInterceptorCompleted := True\<rparr>\<rparr>
          \<and> ActiveInterceptorClass (Status r') = Some c
          \<and> updateCalls w' = updateCalls w @ [r']
          \<and> evictCalls w' = evictCalls w
          \<and> out = (case updateStatus e (length (updateCalls w)) of
                      None \<Rightarrow> Ok | Some err \<Rightarrow> Err err)
          \<and> store w' = (case updateStatus e (length (updateCalls w)) of
                          None \<Rightarrow> Status r' | Some err \<Rightarrow> store w))
       \<and> (\<not> deadlineExceeded e r \<longrightarrow> r' = r \<and> w' = w \<and> out = Ok)"
    using assms(4) unfolding Handle_pending[OF assms(1-3)] updateEvictionRequestStatus_eq
    by (auto simp: assms(1) UpdateStatus_calls UpdateStatus_evicts UpdateStatus_store
             split: option.splits)
  have dispatcher: "targetPresent e r \<and> EvictionRequestCancellationPolicy (Status r) \<noteq> ''''
            \<and> Interceptors (Spec r) \<noteq> [] \<longrightarrow>
              ReconcileEvictionRequest srt e r w = (out, r', w')"
    using assms(4)
    by (auto simp: ReconcileEvictionRequest_def routeRequest_def targetPresent_def
          split: option.splits lookup.splits)
  from handler dispatcher show ?thesis by blast
qed

text \<open>
  Interceptors \<open>a\<close> (priority 10) and \<open>b\<close> (20), \<open>b\<close> active with its heartbeat at time 0
  and a deadline of 1800 seconds: one nanosecond past the deadline the flag is set and
  stored; at the deadline itself nothing changes.
\<close>

theorem C3_heartbeat_deadline_witness:
  "deadlineExceeded (exampleEnv 1800000000001 None (\<lambda>_. None))
      (exampleRequest [interceptorA, interceptorB] (pendingB 0))
   \<and> Status (fst (snd (Handle insertionSortLessFunc (exampleEnv 1800000000001 None (\<lambda>_. None))
         (exampleRequest [interceptorA, interceptorB] (pendingB 0)) (emptyWorld (pendingB 0))))) =
       (pendingB 0)\<lparr>ActiveInterceptorCompleted := True\<rparr>
   \<and> store (snd (snd (Handle insertionSortLessFunc (exampleEnv 1800000000001 None (\<lambda>_. None))
         (exampleRequest [interceptorA, interceptorB] (pendingB 0)) (emptyWorld (pendingB 0))))) =
       (pendingB 0)\<lparr>ActiveInterceptorCompleted := True\<rparr>
   \<and> \<not> deadlineExceeded (exampleEnv 1800000000000 None (\<lambda>_. None))
      (exampleRequest [interceptorA, interceptorB] (pendingB 0))
   \<and> Handle insertionSortLessFunc (exampleEnv 1800000000000 None (\<lambda>_. None))
         (exampleRequest [interceptorA, interceptorB] (pendingB 0)) (emptyWorld (pendingB 0)) =
       (Ok, exampleRequest [interceptorA, interceptorB] (pendingB 0), emptyWorld (pendingB 0))
   \<and> targetPresent (exampleEnv 1800000000000 None (\<lambda>_. None))
         (exampleRequest [interceptorA, interceptorB] (pendingB 0))
   \<and> ReconcileEvictionRequest insertionSortLessFunc (exampleEnv 1800000000000 None (\<lambda>_. None))
         (exampleRequest [interceptorA, interceptorB] (pendingB 0)) (emptyWorld (pendingB 0)) =
       (Ok, exampleRequest [interceptorA, interceptorB] (pendingB 0), emptyWorld (pendingB 0))"
  using C3_heartbeat_deadline
          [OF _ _ _ triple, where srt = insertionSortLessFunc
             and e = "exampleEnv 1800000000001 None (\<lambda>_. None)"
             and r = "exampleRequest [interceptorA, interceptorB] (pendingB 0)"
             and w = "emptyWorld (pendingB 0)" and c = "''b''"]
        C3_heartbeat_deadline
          [OF _ _ _ triple, where srt = insertionSortLessFunc
             and e = "exampleEnv 1800000000000 None (\<lambda>_. None)"
             and r = "exampleRequest [interceptorA, interceptorB] (pendingB 0)"
             and w = "emptyWorld (pendingB 0)" and c = "''b''"]
  by (simp add: example_defs pendingB_def deadlineExceeded_def targetPresent_def Allow_def
        prod_eq_iff)

text \<open>
  Claim C1 (the code departs from it). Scenario B: interceptors \<open>a\<close> (priority 10) and
  \<open>b\<close> (20), \<open>b\<close> active and completed. One invocation of the handler selects \<open>a\<close>, and
  \<^verbatim>\<open>ActiveInterceptorCompleted\<close> is still true in the object and in the status stored:
  \<^verbatim>\<open>selectNextInterceptor\<close> assigns the class and nothing else (\<open>Handle_completed_next\<close>
  is the same for every request). A second invocation, with nothing written in between,
  therefore takes \<open>a\<close> for completed and issues the eviction.
\<close>

theorem C1_completed_flag_is_not_reset:
  "ActiveInterceptorClass (Status (fst (snd
      (Handle insertionSortLessFunc (exampleEnv 100 None (\<lambda>_. None))
         (exampleRequest [interceptorA, interceptorB] completedB) (emptyWorld completedB))))) =
       Some ''a''
   \<and> ActiveInterceptorCompleted (Status (fst (snd
      (Handle insertionSortLessFunc (exampleEnv 100 None (\<lambda>_. None))
         (exampleRequest [interceptorA, interceptorB] completedB) (emptyWorld completedB))))) =
       True
   \<and> store (snd (snd
      (Handle insertionSortLessFunc (exampleEnv 100 None (\<lambda>_. None))
         (exampleRequest [interceptorA, interceptorB] completedB) (emptyWorld completedB)))) =
       completedB\<lparr>ActiveInterceptorClass := Some ''a''\<rparr>
   \<and> evictCalls (snd (snd
      (Handle insertionSortLessFunc (exampleEnv 100 None (\<lambda>_. None))
         (fst (snd (Handle insertionSortLessFunc (exampleEnv 100 None (\<lambda>_. None))
            (exampleRequest [interceptorA, interceptorB] completedB) (emptyWorld completedB))))
         (snd (snd (Handle insertionSortLessFunc (exampleEnv 100 None (\<lambda>_. None))
            (exampleRequest [interceptorA, interceptorB] completedB) (emptyWorld completedB))))))) =
       [(''default'', ''web-0'')]"
  by (simp add: example_defs completedB_def eval_defs)

section \<open>What one invocation changes\<close>

subsection \<open>\<^verbatim>\<open>Perform\<close>\<close>

lemma filter_upserted_other:
  "ty \<noteq> CondType c \<Longrightarrow>
   filter (\<lambda>x. CondType x = ty) (upserted t c cs) = filter (\<lambda>x. CondType x = ty) cs"
proof -
  assume ne: "ty \<noteq> CondType c"
  have "filter (\<lambda>x. CondType x = ty) (fst (replaceCondition t c cs)) = filter (\<lambda>x. CondType x = ty) cs"
    using ne by (induction cs) (auto split: prod.splits)
  then show ?thesis using ne by (auto simp: upserted_def split: prod.splits)
qed

lemma Perform_effect:
  "snd (Perform e r w) =
     (case PodRef (Target (Spec r)) of
        None \<Rightarrow> snd (UpsertCondition e r w ConditionTypeReady ConditionFalse ReasonPodNotFound
                  ''EvictionRequest.Spec.Target.PodRef cannot be nil'')
      | Some ref \<Rightarrow>
          (case podLister e (Namespace r) (RefName ref) of
             NotFound \<Rightarrow> (r, w)
           | GetFailed err \<Rightarrow> (r, w)
           | Found pod \<Rightarrow>
               (case evictV1 e (PodNamespace pod) (PodName pod) of
                  Some err \<Rightarrow>
                    snd (UpsertCondition e
                      (defaultCancellationPolicy
                        (r\<lparr>Status := (Status r)\<lparr>PodEvictionStatus :=
                           Some \<lparr>FailedAPIEvictionCounter = failedCounter (Status r) + 1\<rparr>\<rparr>\<rparr>))
                      (w\<lparr>evictCalls := evictCalls w @ [(PodNamespace pod, PodName pod)]\<rparr>)
                      ConditionTypeEvicted ConditionFalse ReasonEvictionFailed ''Failed to evict pod'')
                | None \<Rightarrow>
                    snd (UpsertCondition e r
                      (w\<lparr>evictCalls := evictCalls w @ [(PodNamespace pod, PodName pod)]\<rparr>)
                      ConditionTypeEvicted ConditionTrue ReasonEvictionSucceeded
                      ''Pod evicted successfully''))))"
  by (simp add: Perform_def IncrementFailedEvictionCounter_eq Let_def
        split: option.splits lookup.splits prod.splits)

lemma Perform_frame:
  "ActiveInterceptorClass (Status (fst (snd (Perform e r w)))) = ActiveInterceptorClass (Status r)"
  "ActiveInterceptorCompleted (Status (fst (snd (Perform e r w)))) = ActiveInterceptorCompleted (Status r)"
  "HeartbeatTime (Status (fst (snd (Perform e r w)))) = HeartbeatTime (Status r)"
  "Spec (fst (snd (Perform e r w))) = Spec r"
  "Namespace (fst (snd (Perform e r w))) = Namespace r"
  by (simp_all add: Perform_effect UpsertCondition_frame split: option.splits lookup.splits)

lemma Perform_store:
  "store (snd (snd (Perform e r w))) = store w
   \<or> store (snd (snd (Perform e r w))) = Status (fst (snd (Perform e r w)))"
  by (simp add: Perform_effect UpsertCondition_calls split: option.splits lookup.splits)

lemma Perform_counter:
  "failedCounter (Status (fst (snd (Perform e r w)))) = failedCounter (Status r)
   \<or> failedCounter (Status (fst (snd (Perform e r w)))) = failedCounter (Status r) + 1"
  by (simp add: Perform_effect UpsertCondition_frame failedCounter_def
        split: option.splits lookup.splits)

lemma Perform_policy:
  "EvictionRequestCancellationPolicy (Status r) \<noteq> '''' \<Longrightarrow>
   EvictionRequestCancellationPolicy (Status (fst (snd (Perform e r w)))) =
     EvictionRequestCancellationPolicy (Status r)"
  by (simp add: Perform_effect UpsertCondition_request split: option.splits lookup.splits)

lemma Perform_other_conditions:
  "PodRef (Target (Spec r)) \<noteq> None \<Longrightarrow> ty \<noteq> ConditionTypeEvicted \<Longrightarrow>
   filter (\<lambda>x. CondType x = ty) (Conditions (Status (fst (snd (Perform e r w))))) =
   filter (\<lambda>x. CondType x = ty) (Conditions (Status r))"
  by (auto simp: Perform_effect UpsertCondition_request filter_upserted_other mkCondition_def
        split: option.splits lookup.splits)

subsection \<open>\<^verbatim>\<open>Handle\<close>\<close>

lemma Handle_cases:
  "Handle srt e r w =
     (if unselected (Status r) then
        (case sortInterceptorsByPriority srt (Interceptors (Spec r)) of
           [] \<Rightarrow> (Panic IndexOutOfRange, r, w)
         | h # _ \<Rightarrow>
             updateEvictionRequestStatus e
               (r\<lparr>Status := (Status r)\<lparr>ActiveInterceptorClass := Some (InterceptorClass h)\<rparr>\<rparr>) w)
      else if ActiveInterceptorCompleted (Status r) then
        (if canAdvance (sortInterceptorsByPriority srt (Interceptors (Spec r))) (Status r)
         then updateEvictionRequestStatus e
               (r\<lparr>Status := (Status r)\<lparr>ActiveInterceptorClass :=
                    nextActive (sortInterceptorsByPriority srt (Interceptors (Spec r))) (Status r)\<rparr>\<rparr>) w
         else Perform e r w)
      else if deadlineExceeded e r then
        updateEvictionRequestStatus e
          (r\<lparr>Status := (Status r)\<lparr>ActiveInterceptorCompleted := True\<rparr>\<rparr>) w
      else (Ok, r, w))"
proof (cases "unselected (Status r)")
  case True
  then show ?thesis
    by (auto simp: Handle_def unselected_def selectInitialInterceptor_def Let_def)
next
  case False
  then obtain c where c: "ActiveInterceptorClass (Status r) = Some c" "c \<noteq> ''''"
    by (auto simp: unselected_def)
  show ?thesis
  proof (cases "ActiveInterceptorCompleted (Status r)")
    case True
    with False c show ?thesis
      by (auto simp: Handle_def handleCompletedInterceptor_def selectNextInterceptor_def
            nextActive_def canAdvance_def unselected_def Let_def)
  next
    case nc: False
    with False show ?thesis
      using Handle_pending[OF c nc, of srt e w] by simp
  qed
qed

lemma updateEvictionRequestStatus_request [simp]:
  "fst (snd (updateEvictionRequestStatus e r w)) = r"
  by (simp add: updateEvictionRequestStatus_eq)

lemma updateEvictionRequestStatus_world:
  "snd (snd (updateEvictionRequestStatus e r w)) = snd (UpdateStatus e r w)"
  by (simp add: updateEvictionRequestStatus_eq)

lemma Handle_active:
  "ActiveInterceptorClass (Status (fst (snd (Handle srt e r w)))) =
     nextActive (sortInterceptorsByPriority srt (Interceptors (Spec r))) (Status r)"
  by (auto simp: Handle_cases Perform_frame nextActive_def canAdvance_def unselected_def
        split: list.splits option.splits)

lemma Handle_frame:
  "Spec (fst (snd (Handle srt e r w))) = Spec r"
  "Namespace (fst (snd (Handle srt e r w))) = Namespace r"
  by (simp_all add: Handle_cases Perform_frame split: list.splits)

lemma Handle_store:
  "store (snd (snd (Handle srt e r w))) = store w
   \<or> store (snd (snd (Handle srt e r w))) = Status (fst (snd (Handle srt e r w)))"
  using Perform_store[of e r w]
  by (auto simp: Handle_cases updateEvictionRequestStatus_world UpdateStatus_store
        split: list.splits option.splits)

lemma Handle_counter:
  "failedCounter (Status (fst (snd (Handle srt e r w)))) = failedCounter (Status r)
   \<or> failedCounter (Status (fst (snd (Handle srt e r w)))) = failedCounter (Status r) + 1"
  using Perform_counter[of e r w]
  by (auto simp: Handle_cases failedCounter_def split: list.splits)

lemma Handle_other_conditions:
  "PodRef (Target (Spec r)) \<noteq> None \<Longrightarrow> ty \<noteq> ConditionTypeEvicted \<Longrightarrow>
   filter (\<lambda>x. CondType x = ty) (Conditions (Status (fst (snd (Handle srt e r w))))) =
   filter (\<lambda>x. CondType x = ty) (Conditions (Status r))"
  using Perform_other_conditions[of r ty e w]
  by (auto simp: Handle_cases split: list.splits)

lemma Perform_no_panic: "fst (Perform e r w) \<noteq> Panic p"
  by (simp add: Perform_def Let_def split: option.splits lookup.splits prod.splits)

lemma updateEvictionRequestStatus_no_panic: "fst (updateEvictionRequestStatus e r w) \<noteq> Panic p"
  by (simp add: updateEvictionRequestStatus_eq split: option.splits)

lemma Handle_no_panic:
  "sortInterceptorsByPriority srt (Interceptors (Spec r)) \<noteq> [] \<Longrightarrow>
   fst (Handle srt e r w) \<noteq> Panic p"
  by (auto simp: Handle_cases Perform_no_panic updateEvictionRequestStatus_no_panic
        split: list.splits)

section \<open>Properties of the Dispatcher\<close>

lemma nextActive_policy [simp]:
  "nextActive order (st\<lparr>EvictionRequestCancellationPolicy := p\<rparr>) = nextActive order st"
  by (cases order) (simp_all add: nextActive_def canAdvance_def unselected_def)

lemma routeRequest_active:
  "ActiveInterceptorClass (Status (fst (snd (routeRequest srt e r w)))) =
     ActiveInterceptorClass (Status r)
   \<or> ActiveInterceptorClass (Status (fst (snd (routeRequest srt e r w)))) =
     nextActive (sortInterceptorsByPriority srt (Interceptors (Spec r))) (Status r)"
  by (simp add: routeRequest_def Handle_active Perform_frame)

lemma routeRequest_store:
  "store (snd (snd (routeRequest srt e r w))) = store w
   \<or> store (snd (snd (routeRequest srt e r w))) = Status (fst (snd (routeRequest srt e r w)))"
  using Handle_store[of srt e r w] Perform_store[of e r w] by (simp add: routeRequest_def)

lemma routeRequest_counter:
  "failedCounter (Status (fst (snd (routeRequest srt e r w)))) = failedCounter (Status r)
   \<or> failedCounter (Status (fst (snd (routeRequest srt e r w)))) = failedCounter (Status r) + 1"
  using Handle_counter[of srt e r w] Perform_counter[of e r w] by (simp add: routeRequest_def)

lemma routeRequest_other_conditions:
  "PodRef (Target (Spec r)) \<noteq> None \<Longrightarrow> ty \<noteq> ConditionTypeEvicted \<Longrightarrow>
   filter (\<lambda>x. CondType x = ty) (Conditions (Status (fst (snd (routeRequest srt e r w))))) =
   filter (\<lambda>x. CondType x = ty) (Conditions (Status r))"
  by (simp add: routeRequest_def Handle_other_conditions Perform_other_conditions)

lemma routeRequest_no_panic:
  "sort_Slice_contract srt \<Longrightarrow> fst (routeRequest srt e r w) \<noteq> Panic p"
proof -
  assume c: "sort_Slice_contract srt"
  show ?thesis
  proof (cases "Interceptors (Spec r)")
    case Nil
    then show ?thesis by (simp add: routeRequest_def Perform_no_panic)
  next
    case (Cons x xs)
    then have "sortInterceptorsByPriority srt (Interceptors (Spec r)) \<noteq> []"
      using sorted_length[OF c, of "Interceptors (Spec r)"] by auto
    then show ?thesis using Cons by (simp add: routeRequest_def Handle_no_panic)
  qed
qed

lemma Reconcile_cases:
  "ReconcileEvictionRequest srt e r w =
     (if PodRef (Target (Spec r)) = None then (Panic NilPointerDereference, r, w)
      else if \<not> targetPresent e r then
        ((case podLister e (Namespace r) (RefName (the (PodRef (Target (Spec r))))) of
            GetFailed err \<Rightarrow> Err err | _ \<Rightarrow> Ok), r, w)
      else if EvictionRequestCancellationPolicy (Status r) = '''' then
        (case updateStatus e (length (updateCalls w)) of
           Some err \<Rightarrow>
             (Err err, defaultCancellationPolicy r,
              snd (UpdateStatus e (defaultCancellationPolicy r) w))
         | None \<Rightarrow>
             routeRequest srt e (defaultCancellationPolicy r)
               (snd (UpdateStatus e (defaultCancellationPolicy r) w)))
      else routeRequest srt e r w)"
  by (auto simp: ReconcileEvictionRequest_def targetPresent_def defaultCancellationPolicy_def
        UpdateStatus_def Let_def split: option.splits lookup.splits)

lemma nextActive_defaultCancellationPolicy [simp]:
  "nextActive order (Status (defaultCancellationPolicy r)) = nextActive order (Status r)"
  by (simp add: defaultCancellationPolicy_def)

lemma Reconcile_active:
  "ActiveInterceptorClass (Status (fst (snd (ReconcileEvictionRequest srt e r w)))) =
     ActiveInterceptorClass (Status r)
   \<or> ActiveInterceptorClass (Status (fst (snd (ReconcileEvictionRequest srt e r w)))) =
     nextActive (sortInterceptorsByPriority srt (Interceptors (Spec r))) (Status r)"
  using routeRequest_active[of srt e r w]
    routeRequest_active[of srt e "defaultCancellationPolicy r" "snd (UpdateStatus e (defaultCancellationPolicy r) w)"]
  by (auto simp: Reconcile_cases split: option.splits)

lemma Reconcile_store_active:
  "ActiveInterceptorClass (store (snd (snd (ReconcileEvictionRequest srt e r w)))) \<in>
     {ActiveInterceptorClass (store w), ActiveInterceptorClass (Status r),
      nextActive (sortInterceptorsByPriority srt (Interceptors (Spec r))) (Status r)}"
proof -
  let ?r1 = "defaultCancellationPolicy r"
  let ?w1 = "snd (UpdateStatus e ?r1 w)"
  have a: "ActiveInterceptorClass (store ?w1) \<in>
     {ActiveInterceptorClass (store w), ActiveInterceptorClass (Status r)}"
    by (simp add: UpdateStatus_store split: option.splits)
  show ?thesis
    using routeRequest_store[of srt e r w] routeRequest_active[of srt e r w]
      routeRequest_store[of srt e ?r1 ?w1] routeRequest_active[of srt e ?r1 ?w1] a
    by (auto simp: Reconcile_cases split: option.splits)
qed

lemma targetPresent_cong:
  "Spec r' = Spec r \<Longrightarrow> Namespace r' = Namespace r \<Longrightarrow> podLister e' = podLister e \<Longrightarrow>
   targetPresent e' r' = targetPresent e r"
  by (simp add: targetPresent_def split: option.splits)

lemma Reconcile_routes:
  "targetPresent e r \<Longrightarrow> EvictionRequestCancellationPolicy (Status r) \<noteq> '''' \<Longrightarrow>
   ReconcileEvictionRequest srt e r w = routeRequest srt e r w"
  by (auto simp: Reconcile_cases targetPresent_def)

lemma Reconcile_store_next:
  assumes tp: "targetPresent e r" and ok: "\<forall>n. updateStatus e n = None"
      and ne: "Interceptors (Spec r) \<noteq> []"
      and o: "sortInterceptorsByPriority srt (Interceptors (Spec r)) \<noteq> []"
      and st: "unselected (Status r) \<or> ActiveInterceptorCompleted (Status r)"
      and same: "ActiveInterceptorClass (store w) = ActiveInterceptorClass (Status r)"
  shows "ActiveInterceptorClass (store (snd (snd (ReconcileEvictionRequest srt e r w)))) =
         nextActive (sortInterceptorsByPriority srt (Interceptors (Spec r))) (Status r)"
proof -
  have route: "ActiveInterceptorClass (store (snd (snd (routeRequest srt e r' w')))) =
         nextActive (sortInterceptorsByPriority srt (Interceptors (Spec r'))) (Status r')"
    if "Interceptors (Spec r') \<noteq> []"
      and "sortInterceptorsByPriority srt (Interceptors (Spec r')) \<noteq> []"
      and "unselected (Status r') \<or> ActiveInterceptorCompleted (Status r')"
      and "ActiveInterceptorClass (store w') = ActiveInterceptorClass (Status r')"
    for r' w'
    using that ok Perform_store[of e r' w'] Perform_frame(1)[of e r' w']
    by (auto simp: routeRequest_def Handle_cases updateEvictionRequestStatus_world
          UpdateStatus_store nextActive_def split: list.splits)
  from tp have ref: "PodRef (Target (Spec r)) \<noteq> None"
    by (auto simp: targetPresent_def split: option.splits)
  show ?thesis
  proof (cases "EvictionRequestCancellationPolicy (Status r) = ''''")
    case False
    with tp ref route[OF ne o st same] show ?thesis by (auto simp: Reconcile_cases)
  next
    case True
    let ?r1 = "defaultCancellationPolicy r"
    let ?w1 = "snd (UpdateStatus e ?r1 w)"
    have "ActiveInterceptorClass (store (snd (snd (routeRequest srt e ?r1 ?w1)))) =
         nextActive (sortInterceptorsByPriority srt (Interceptors (Spec ?r1))) (Status ?r1)"
      using ne o st ok
      by (intro route) (simp_all add: defaultCancellationPolicy_def UpdateStatus_store unselected_def)
    then show ?thesis
      using tp ref True ok by (auto simp: Reconcile_cases defaultCancellationPolicy_def)
  qed
qed

lemma Reconcile_counter:
  "failedCounter (Status (fst (snd (ReconcileEvictionRequest srt e r w)))) = failedCounter (Status r)
   \<or> failedCounter (Status (fst (snd (ReconcileEvictionRequest srt e r w)))) =
        failedCounter (Status r) + 1"
  using routeRequest_counter[of srt e r w]
    routeRequest_counter[of srt e "defaultCancellationPolicy r" "snd (UpdateStatus e (defaultCancellationPolicy r) w)"]
  by (auto simp: Reconcile_cases split: option.splits)

lemma Reconcile_other_conditions:
  "ty \<noteq> ConditionTypeEvicted \<Longrightarrow>
   filter (\<lambda>x. CondType x = ty)
     (Conditions (Status (fst (snd (ReconcileEvictionRequest srt e r w))))) =
   filter (\<lambda>x. CondType x = ty) (Conditions (Status r))"
  using routeRequest_other_conditions[of r ty srt e w]
    routeRequest_other_conditions[of "defaultCancellationPolicy r" ty srt e
      "snd (UpdateStatus e (defaultCancellationPolicy r) w)"]
  by (auto simp: Reconcile_cases split: option.splits)

lemma Reconcile_no_panic:
  "sort_Slice_contract srt \<Longrightarrow> PodRef (Target (Spec r)) \<noteq> None \<Longrightarrow>
   fst (ReconcileEvictionRequest srt e r w) \<noteq> Panic p"
  by (auto simp: Reconcile_cases routeRequest_no_panic split: option.splits lookup.splits)

text \<open>
  Claim C10. \<^verbatim>\<open>ReconcileEvictionRequest\<close> reads \<^verbatim>\<open>Spec.Target.PodRef.Name\<close> first: with a
  nil pod reference it panics, having changed and written nothing, where \<^verbatim>\<open>Perform\<close> on
  the same request takes its defensive branch (the condition \<open>Ready\<close> set to \<open>False\<close> with
  reason \<open>PodNotFound\<close>, and the error "pod reference cannot be nil"). With a pod reference
  set, and a sort that keeps the contract of \<^verbatim>\<open>sort.Slice\<close>, it does not panic. No call of
  the Dispatcher changes a condition of type \<open>Ready\<close>, which only that branch writes: the
  branch is not reached through the Dispatcher.
\<close>

theorem C10_nil_target_panics_in_the_Dispatcher:
  "(PodRef (Target (Spec r)) = None \<longrightarrow>
      ReconcileEvictionRequest srt e r w = (Panic NilPointerDereference, r, w)
    \<and> fst (Perform e r w) = Err (ErrorsNew ''pod reference cannot be nil'')
    \<and> findCondition ConditionTypeReady (Conditions (Status (fst (snd (Perform e r w))))) =
        Some (mkCondition
               (case findCondition ConditionTypeReady (Conditions (Status r)) of
                  None \<Rightarrow> now e
                | Some old \<Rightarrow>
                    if CondStatus old = ConditionFalse then LastTransitionTime old else now e)
               ConditionTypeReady ConditionFalse ReasonPodNotFound
               ''EvictionRequest.Spec.Target.PodRef cannot be nil''))
   \<and> (PodRef (Target (Spec r)) \<noteq> None \<and> sort_Slice_contract srt \<longrightarrow>
        (\<forall>p. fst (ReconcileEvictionRequest srt e r w) \<noteq> Panic p))
   \<and> filter (\<lambda>x. CondType x = ConditionTypeReady)
        (Conditions (Status (fst (snd (ReconcileEvictionRequest srt e r w))))) =
      filter (\<lambda>x. CondType x = ConditionTypeReady) (Conditions (Status r))"
proof -
  have nil: "PodRef (Target (Spec r)) = None \<longrightarrow>
      ReconcileEvictionRequest srt e r w = (Panic NilPointerDereference, r, w)
    \<and> fst (Perform e r w) = Err (ErrorsNew ''pod reference cannot be nil'')
    \<and> findCondition ConditionTypeReady (Conditions (Status (fst (snd (Perform e r w))))) =
        Some (mkCondition
               (case findCondition ConditionTypeReady (Conditions (Status r)) of
                  None \<Rightarrow> now e
                | Some old \<Rightarrow>
                    if CondStatus old = ConditionFalse then LastTransitionTime old else now e)
               ConditionTypeReady ConditionFalse ReasonPodNotFound
               ''EvictionRequest.Spec.Target.PodRef cannot be nil'')"
    by (auto simp: ReconcileEvictionRequest_def Perform_effect UpsertCondition_find)
       (simp add: Perform_def split: prod.splits)
  have total: "PodRef (Target (Spec r)) \<noteq> None \<and> sort_Slice_contract srt \<longrightarrow>
        (\<forall>p. fst (ReconcileEvictionRequest srt e r w) \<noteq> Panic p)"
    using Reconcile_no_panic[of srt r e w] by blast
  have ready: "filter (\<lambda>x. CondType x = ConditionTypeReady)
        (Conditions (Status (fst (snd (ReconcileEvictionRequest srt e r w))))) =
      filter (\<lambda>x. CondType x = ConditionTypeReady) (Conditions (Status r))"
    by (rule Reconcile_other_conditions)
       (simp add: ConditionTypeReady_def ConditionTypeEvicted_def)
  from nil total ready show ?thesis by blast
qed


text \<open>
  A request without a pod reference, and the request for the pod \<open>web-0\<close> with no
  interceptors, whose eviction succeeds.
\<close>

theorem C10_nil_target_panics_in_the_Dispatcher_witness:
  "PodRef (Target (Spec nilTargetRequest)) = None
   \<and> ReconcileEvictionRequest insertionSortLessFunc (exampleEnv 100 None (\<lambda>_. None))
        nilTargetRequest (emptyWorld emptyStatus) =
       (Panic NilPointerDereference, nilTargetRequest, emptyWorld emptyStatus)
   \<and> fst (Perform (exampleEnv 100 None (\<lambda>_. None)) nilTargetRequest (emptyWorld emptyStatus)) =
       Err (ErrorsNew ''pod reference cannot be nil'')
   \<and> PodRef (Target (Spec (exampleRequest [] emptyStatus))) \<noteq> None
   \<and> sort_Slice_contract insertionSortLessFunc
   \<and> fst (ReconcileEvictionRequest insertionSortLessFunc (exampleEnv 100 None (\<lambda>_. None))
        (exampleRequest [] emptyStatus) (emptyWorld emptyStatus)) \<noteq> Panic NilPointerDereference"
  using C10_nil_target_panics_in_the_Dispatcher
          [where srt = insertionSortLessFunc and e = "exampleEnv 100 None (\<lambda>_. None)"
             and r = nilTargetRequest and w = "emptyWorld emptyStatus"]
        C10_nil_target_panics_in_the_Dispatcher
          [where srt = insertionSortLessFunc and e = "exampleEnv 100 None (\<lambda>_. None)"
             and r = "exampleRequest [] emptyStatus" and w = "emptyWorld emptyStatus"]
        insertionSortLessFunc_contract
  by (simp add: nilTargetRequest_def example_defs)

subsection \<open>The failure counter over one reconciliation\<close>

text \<open>
  One invocation of the Dispatcher leaves the counter as it is or one higher in int32
  arithmetic (\<open>Reconcile_counter\<close>); below the greatest int32 it therefore does not
  decrease.
\<close>

lemma Reconcile_counter_below_maximum:
  assumes "sint (failedCounter (Status r)) < 2147483647"
  shows "sint (failedCounter (Status r)) \<le>
         sint (failedCounter (Status (fst (snd (ReconcileEvictionRequest srt e r w)))))"
  using Reconcile_counter[of srt e r w] sint_succ[OF assms] by auto

section \<open>The order of hand-off\<close>



lemma nextActive_step:
  assumes d: "distinct (map InterceptorClass order)"
      and ne: "'''' \<notin> InterceptorClass ` set order"
      and s: "selected order j (ActiveInterceptorClass st)"
  shows "nextActive order st = ActiveInterceptorClass st
       \<or> (j < length order \<and> nextActive order st = Some (InterceptorClass (order ! j)))"
proof (cases "j = 0")
  case True
  with s have "unselected st" by (simp add: selected_def unselected_def)
  with True show ?thesis by (cases order) (simp_all add: nextActive_def)
next
  case False
  with s have j: "j \<le> length order" "j - 1 < length order"
    and a: "ActiveInterceptorClass st = Some (InterceptorClass (order ! (j - 1)))"
    by (auto simp: selected_def)
  have "InterceptorClass (order ! (j - 1)) \<in> InterceptorClass ` set order"
    using j by simp
  with ne have nonempty: "InterceptorClass (order ! (j - 1)) \<noteq> ''''" by metis
  have idx: "findInterceptorIndex order (InterceptorClass (order ! (j - 1))) = int (j - 1)"
    using findInterceptorIndex_distinct[OF d j(2)] .
  show ?thesis
    using a nonempty idx False j
    by (auto simp: nextActive_def canAdvance_def unselected_def nat_add_distrib)
qed


lemma handoffs_prefix:
  assumes d: "distinct (map InterceptorClass (sortInterceptorsByPriority srt (Interceptors (Spec r))))"
      and ne: "'''' \<notin> InterceptorClass ` set (sortInterceptorsByPriority srt (Interceptors (Spec r)))"
  shows "selected (sortInterceptorsByPriority srt (Interceptors (Spec r))) j
           (ActiveInterceptorClass (store w)) \<Longrightarrow>
         prefix (handoffs srt r steps w)
           (drop j (map (\<lambda>i. Some (InterceptorClass i))
                      (sortInterceptorsByPriority srt (Interceptors (Spec r)))))"
proof (induction steps arbitrary: w j)
  case Nil
  then show ?case by simp
next
  case (Cons step steps)
  let ?order = "sortInterceptorsByPriority srt (Interceptors (Spec r))"
  obtain e written where step: "step = (e, written)" by (cases step)
  let ?w0 = "w\<lparr>store := written\<lparr>ActiveInterceptorClass := ActiveInterceptorClass (store w)\<rparr>\<rparr>"
  let ?r0 = "r\<lparr>Status := store ?w0\<rparr>"
  let ?w1 = "snd (snd (ReconcileEvictionRequest srt e ?r0 ?w0))"
  have s0: "selected ?order j (ActiveInterceptorClass (store ?w0))" using Cons.prems by simp
  have mem: "ActiveInterceptorClass (store ?w1) \<in>
      {ActiveInterceptorClass (store ?w0), nextActive ?order (store ?w0)}"
    using Reconcile_store_active[of srt e ?r0 ?w0] by auto
  have nxt: "nextActive ?order (store ?w0) = ActiveInterceptorClass (store ?w0)
       \<or> (j < length ?order \<and> nextActive ?order (store ?w0) = Some (InterceptorClass (?order ! j)))"
    using nextActive_step[OF d ne s0] .
  show ?case
  proof (cases "ActiveInterceptorClass (store ?w1) = ActiveInterceptorClass (store ?w0)")
    case True
    then have "selected ?order j (ActiveInterceptorClass (store ?w1))" using s0 by simp
    from Cons.IH[OF this] True step show ?thesis by (simp add: Let_def)
  next
    case False
    with mem nxt have j: "j < length ?order"
      and a1: "ActiveInterceptorClass (store ?w1) = Some (InterceptorClass (?order ! j))"
      by auto
    then have "selected ?order (Suc j) (ActiveInterceptorClass (store ?w1))"
      by (simp add: selected_def)
    from Cons.IH[OF this]
    have "prefix (handoffs srt r steps ?w1)
            (drop (Suc j) (map (\<lambda>i. Some (InterceptorClass i)) ?order))" .
    moreover have "drop j (map (\<lambda>i. Some (InterceptorClass i)) ?order) =
        Some (InterceptorClass (?order ! j)) # drop (Suc j) (map (\<lambda>i. Some (InterceptorClass i)) ?order)"
      using j by (simp add: Cons_nth_drop_Suc[symmetric])
    ultimately show ?thesis using False a1 step by (simp add: Let_def)
  qed
qed

lemma nextActive_exact:
  assumes d: "distinct (map InterceptorClass order)"
      and ne: "'''' \<notin> InterceptorClass ` set order"
      and o: "order \<noteq> []"
      and s: "selected order j (ActiveInterceptorClass st)"
      and c: "j = 0 \<or> ActiveInterceptorCompleted st"
  shows "nextActive order st =
           (if j < length order then Some (InterceptorClass (order ! j))
            else ActiveInterceptorClass st)"
proof (cases "j = 0")
  case True
  with s have "unselected st" by (simp add: selected_def unselected_def)
  with True o show ?thesis by (cases order) (simp_all add: nextActive_def)
next
  case False
  with s have j: "j \<le> length order" "j - 1 < length order"
    and a: "ActiveInterceptorClass st = Some (InterceptorClass (order ! (j - 1)))"
    by (auto simp: selected_def)
  have "InterceptorClass (order ! (j - 1)) \<in> InterceptorClass ` set order"
    using j by simp
  with ne have nonempty: "InterceptorClass (order ! (j - 1)) \<noteq> ''''" by metis
  have idx: "findInterceptorIndex order (InterceptorClass (order ! (j - 1))) = int (j - 1)"
    using findInterceptorIndex_distinct[OF d j(2)] .
  show ?thesis
    using a nonempty idx False j c
    by (auto simp: nextActive_def canAdvance_def unselected_def nat_add_distrib)
qed

lemma selected_not_next:
  assumes d: "distinct (map InterceptorClass order)"
      and ne: "'''' \<notin> InterceptorClass ` set order"
      and s: "selected order j a" and j: "j < length order"
  shows "a \<noteq> Some (InterceptorClass (order ! j))"
proof (cases "j = 0")
  case True
  have "InterceptorClass (order ! j) \<in> InterceptorClass ` set order" using j by simp
  with ne have "InterceptorClass (order ! j) \<noteq> ''''" by metis
  with True s show ?thesis by (auto simp: selected_def)
next
  case False
  with s have a: "a = Some (InterceptorClass (order ! (j - 1)))" by (simp add: selected_def)
  have "(map InterceptorClass order ! (j - 1) = map InterceptorClass order ! j) = (j - 1 = j)"
    using j by (intro nth_eq_iff_index_eq[OF d]) simp_all
  with a j False show ?thesis by simp
qed

lemma handoffs_complete:
  assumes d: "distinct (map InterceptorClass (sortInterceptorsByPriority srt (Interceptors (Spec r))))"
      and ne: "'''' \<notin> InterceptorClass ` set (sortInterceptorsByPriority srt (Interceptors (Spec r)))"
      and i: "Interceptors (Spec r) \<noteq> []"
      and o: "sortInterceptorsByPriority srt (Interceptors (Spec r)) \<noteq> []"
  shows "selected (sortInterceptorsByPriority srt (Interceptors (Spec r))) j
           (ActiveInterceptorClass (store w)) \<Longrightarrow>
         \<forall>step \<in> set steps. targetPresent (fst step) r \<and> (\<forall>n. updateStatus (fst step) n = None) \<Longrightarrow>
         \<forall>step \<in> set (if j = 0 then tl steps else steps). ActiveInterceptorCompleted (snd step) \<Longrightarrow>
         handoffs srt r steps w =
           take (length steps)
             (drop j (map (\<lambda>i. Some (InterceptorClass i))
                        (sortInterceptorsByPriority srt (Interceptors (Spec r)))))"
proof (induction steps arbitrary: w j)
  case Nil
  then show ?case by simp
next
  case (Cons step steps)
  let ?order = "sortInterceptorsByPriority srt (Interceptors (Spec r))"
  obtain e written where step: "step = (e, written)" by (cases step)
  let ?w0 = "w\<lparr>store := written\<lparr>ActiveInterceptorClass := ActiveInterceptorClass (store w)\<rparr>\<rparr>"
  let ?r0 = "r\<lparr>Status := store ?w0\<rparr>"
  let ?w1 = "snd (snd (ReconcileEvictionRequest srt e ?r0 ?w0))"
  have s0: "selected ?order j (ActiveInterceptorClass (store ?w0))" using Cons.prems(1) by simp
  have tp0: "targetPresent e r" and ok: "\<forall>n. updateStatus e n = None"
    using Cons.prems(2) step by simp_all
  have tp: "targetPresent e ?r0" using tp0 targetPresent_cong[of ?r0 r e e] by simp
  have c: "j = 0 \<or> ActiveInterceptorCompleted (store ?w0)"
    using Cons.prems(3) step by (cases "j = 0") simp_all
  have u: "unselected (Status ?r0) \<or> ActiveInterceptorCompleted (Status ?r0)"
    using c s0 by (auto simp: selected_def unselected_def)
  have "ActiveInterceptorClass (store ?w1) = nextActive ?order (Status ?r0)"
    using Reconcile_store_next[OF tp ok, of srt ?w0] i o u by simp
  also have "\<dots> = (if j < length ?order then Some (InterceptorClass (?order ! j))
            else ActiveInterceptorClass (store ?w0))"
    using nextActive_exact[OF d ne o s0 c] by simp
  finally have a1: "ActiveInterceptorClass (store ?w1) =
      (if j < length ?order then Some (InterceptorClass (?order ! j))
       else ActiveInterceptorClass (store ?w0))" .
  have rest: "\<forall>step \<in> set steps. targetPresent (fst step) r \<and> (\<forall>n. updateStatus (fst step) n = None)"
    using Cons.prems(2) by simp
  show ?case
  proof (cases "j < length ?order")
    case True
    with a1 have n: "ActiveInterceptorClass (store ?w1) = Some (InterceptorClass (?order ! j))"
      by simp
    have changed: "ActiveInterceptorClass (store ?w1) \<noteq> ActiveInterceptorClass (store ?w0)"
      using selected_not_next[OF d ne s0 True] n by simp
    have s1: "selected ?order (Suc j) (ActiveInterceptorClass (store ?w1))"
      using n True by (simp add: selected_def)
    have c1: "\<forall>step \<in> set (if Suc j = 0 then tl steps else steps). ActiveInterceptorCompleted (snd step)"
      using Cons.prems(3) by (cases "j = 0") simp_all
    have "handoffs srt r steps ?w1 =
        take (length steps) (drop (Suc j) (map (\<lambda>i. Some (InterceptorClass i)) ?order))"
      using Cons.IH[OF s1 rest c1] .
    moreover have "drop j (map (\<lambda>i. Some (InterceptorClass i)) ?order) =
        Some (InterceptorClass (?order ! j)) # drop (Suc j) (map (\<lambda>i. Some (InterceptorClass i)) ?order)"
      using True by (simp add: Cons_nth_drop_Suc[symmetric])
    ultimately show ?thesis using changed n step by (simp add: Let_def)
  next
    case False
    with a1 have same: "ActiveInterceptorClass (store ?w1) = ActiveInterceptorClass (store ?w0)"
      by simp
    with s0 have s1: "selected ?order j (ActiveInterceptorClass (store ?w1))" by simp
    from False o have j0: "j \<noteq> 0" by (cases ?order) auto
    have c1: "\<forall>step \<in> set (if j = 0 then tl steps else steps). ActiveInterceptorCompleted (snd step)"
      using Cons.prems(3) j0 by simp
    from Cons.IH[OF s1 rest c1] same False step show ?thesis by (simp add: Let_def)
  qed
qed

lemma sorted_example:
  "sortInterceptorsByPriority insertionSortLessFunc [interceptorA, interceptorB] =
     [interceptorB, interceptorA]"
  by (simp add: sortInterceptorsByPriority_def insertionSortLessFunc_def byPriority_def
        interceptorA_def interceptorB_def)



text \<open>
  Claim C5. For a request with at least one interceptor and a sort that keeps the
  contract of \<^verbatim>\<open>sort.Slice\<close>: with no active class (nil or empty) one invocation of the
  handler makes the class of the first entry of the order active, an interceptor of the
  request of the highest priority, and submits that object in one \<^verbatim>\<open>UpdateStatus\<close> call
  whose outcome it returns. The order is a rearrangement of the interceptors, descending
  in priority. Where the classes are distinct and none is empty (the class is the list's
  key, a DNS subdomain):

  \<^item> with the entry at position \<open>j\<close> of the order active and completed, and an entry after
    it, one invocation of the handler makes the class of the entry at position \<open>j + 1\<close>
    active, changes nothing else of the object and submits it in one \<^verbatim>\<open>UpdateStatus\<close>
    call;
  \<^item> in every run of reconciliations from a store with no active class the hand-offs are
    an initial part of the order, so each class is selected at most once;
  \<^item> in a run where every invocation finds the target and has its status writes accepted,
    and the active interceptor has reported completion before every invocation but the
    first, each invocation hands over to the next entry until the order is used up: the
    hand-offs of \<open>n\<close> invocations are the first \<open>n\<close> classes of the order, and all of the
    order once there are as many invocations as interceptors.
\<close>

theorem C5_handoff_follows_priority_order:
  assumes "sort_Slice_contract srt" and "Interceptors (Spec r) \<noteq> []"
  shows "(unselected (Status r) \<longrightarrow>
            hd (sortInterceptorsByPriority srt (Interceptors (Spec r))) \<in> set (Interceptors (Spec r))
          \<and> (\<forall>x \<in> set (Interceptors (Spec r)). sint (Priority x) \<le>
                sint (Priority (hd (sortInterceptorsByPriority srt (Interceptors (Spec r))))))
          \<and> ActiveInterceptorClass (Status (fst (snd (Handle srt e r w)))) =
              Some (InterceptorClass (hd (sortInterceptorsByPriority srt (Interceptors (Spec r)))))
          \<and> updateCalls (snd (snd (Handle srt e r w))) =
              updateCalls w @ [fst (snd (Handle srt e r w))]
          \<and> fst (Handle srt e r w) =
              (case updateStatus e (length (updateCalls w)) of
                 None \<Rightarrow> Ok | Some err \<Rightarrow> Err err)
          \<and> store (snd (snd (Handle srt e r w))) =
              (case updateStatus e (length (updateCalls w)) of
                 None \<Rightarrow> Status (fst (snd (Handle srt e r w))) | Some err \<Rightarrow> store w))
       \<and> mset (sortInterceptorsByPriority srt (Interceptors (Spec r))) =
           mset (Interceptors (Spec r))
       \<and> sorted_wrt (\<lambda>a b. sint (Priority b) \<le> sint (Priority a))
           (sortInterceptorsByPriority srt (Interceptors (Spec r)))
       \<and> (distinct (map InterceptorClass (Interceptors (Spec r)))
            \<and> '''' \<notin> InterceptorClass ` set (Interceptors (Spec r)) \<longrightarrow>
          (\<forall>j. Suc j < length (Interceptors (Spec r))
               \<and> ActiveInterceptorClass (Status r) =
                   Some (InterceptorClass
                     (sortInterceptorsByPriority srt (Interceptors (Spec r)) ! j))
               \<and> ActiveInterceptorCompleted (Status r) \<longrightarrow>
               fst (snd (Handle srt e r w)) =
                 r\<lparr>Status := (Status r)\<lparr>ActiveInterceptorClass :=
                      Some (InterceptorClass
                        (sortInterceptorsByPriority srt (Interceptors (Spec r)) ! Suc j))\<rparr>\<rparr>
             \<and> updateCalls (snd (snd (Handle srt e r w))) =
                 updateCalls w @ [fst (snd (Handle srt e r w))]
             \<and> fst (Handle srt e r w) =
                 (case updateStatus e (length (updateCalls w)) of
                    None \<Rightarrow> Ok | Some err \<Rightarrow> Err err)
             \<and> store (snd (snd (Handle srt e r w))) =
                 (case updateStatus e (length (updateCalls w)) of
                    None \<Rightarrow> Status (fst (snd (Handle srt e r w))) | Some err \<Rightarrow> store w))
        \<and> (\<forall>steps (w0::world). unselected (store w0) \<longrightarrow>
             prefix (handoffs srt r steps w0)
               (map (\<lambda>i. Some (InterceptorClass i))
                  (sortInterceptorsByPriority srt (Interceptors (Spec r))))
           \<and> distinct (handoffs srt r steps w0)
           \<and> ((\<forall>step \<in> set steps. targetPresent (fst step) r
                    \<and> (\<forall>n. updateStatus (fst step) n = None))
                \<and> (\<forall>step \<in> set (tl steps). ActiveInterceptorCompleted (snd step)) \<longrightarrow>
                handoffs srt r steps w0 =
                  take (length steps)
                    (map (\<lambda>i. Some (InterceptorClass i))
                       (sortInterceptorsByPriority srt (Interceptors (Spec r))))
              \<and> (length (Interceptors (Spec r)) \<le> length steps \<longrightarrow>
                   handoffs srt r steps w0 =
                     map (\<lambda>i. Some (InterceptorClass i))
                       (sortInterceptorsByPriority srt (Interceptors (Spec r)))))))"
proof -
  let ?order = "sortInterceptorsByPriority srt (Interceptors (Spec r))"
  have len: "length ?order = length (Interceptors (Spec r))" by (rule sorted_length[OF assms(1)])
  with assms(2) obtain h rest where hr: "?order = h # rest" by (cases ?order) auto
  have first: "unselected (Status r) \<longrightarrow>
            hd ?order \<in> set (Interceptors (Spec r))
          \<and> (\<forall>x \<in> set (Interceptors (Spec r)). sint (Priority x) \<le> sint (Priority (hd ?order)))
          \<and> ActiveInterceptorClass (Status (fst (snd (Handle srt e r w)))) =
              Some (InterceptorClass (hd ?order))
          \<and> updateCalls (snd (snd (Handle srt e r w))) =
              updateCalls w @ [fst (snd (Handle srt e r w))]
          \<and> fst (Handle srt e r w) =
              (case updateStatus e (length (updateCalls w)) of
                 None \<Rightarrow> Ok | Some err \<Rightarrow> Err err)
          \<and> store (snd (snd (Handle srt e r w))) =
              (case updateStatus e (length (updateCalls w)) of
                 None \<Rightarrow> Status (fst (snd (Handle srt e r w))) | Some err \<Rightarrow> store w)"
  proof
    assume u: "unselected (Status r)"
    have H: "Handle srt e r w =
           updateEvictionRequestStatus e
             (r\<lparr>Status := (Status r)\<lparr>ActiveInterceptorClass := Some (InterceptorClass h)\<rparr>\<rparr>) w"
      using Handle_unselected[OF u hr] .
    show "hd ?order \<in> set (Interceptors (Spec r))
          \<and> (\<forall>x \<in> set (Interceptors (Spec r)). sint (Priority x) \<le> sint (Priority (hd ?order)))
          \<and> ActiveInterceptorClass (Status (fst (snd (Handle srt e r w)))) =
              Some (InterceptorClass (hd ?order))
          \<and> updateCalls (snd (snd (Handle srt e r w))) =
              updateCalls w @ [fst (snd (Handle srt e r w))]
          \<and> fst (Handle srt e r w) =
              (case updateStatus e (length (updateCalls w)) of
                 None \<Rightarrow> Ok | Some err \<Rightarrow> Err err)
          \<and> store (snd (snd (Handle srt e r w))) =
              (case updateStatus e (length (updateCalls w)) of
                 None \<Rightarrow> Status (fst (snd (Handle srt e r w))) | Some err \<Rightarrow> store w)"
      using sorted_head_highest[OF assms(1) hr] unfolding H hr
      by (simp add: updateEvictionRequestStatus_eq UpdateStatus_calls UpdateStatus_store
            split: option.splits)
  qed
  have perm: "mset ?order = mset (Interceptors (Spec r))" by (rule sorted_mset[OF assms(1)])
  have desc: "sorted_wrt (\<lambda>a b. sint (Priority b) \<le> sint (Priority a)) ?order"
    by (rule sorted_descending[OF assms(1)])
  have keyed: "distinct (map InterceptorClass (Interceptors (Spec r)))
            \<and> '''' \<notin> InterceptorClass ` set (Interceptors (Spec r)) \<longrightarrow>
          (\<forall>j. Suc j < length (Interceptors (Spec r))
               \<and> ActiveInterceptorClass (Status r) = Some (InterceptorClass (?order ! j))
               \<and> ActiveInterceptorCompleted (Status r) \<longrightarrow>
               fst (snd (Handle srt e r w)) =
                 r\<lparr>Status := (Status r)\<lparr>ActiveInterceptorClass :=
                      Some (InterceptorClass (?order ! Suc j))\<rparr>\<rparr>
             \<and> updateCalls (snd (snd (Handle srt e r w))) =
                 updateCalls w @ [fst (snd (Handle srt e r w))]
             \<and> fst (Handle srt e r w) =
                 (case updateStatus e (length (updateCalls w)) of
                    None \<Rightarrow> Ok | Some err \<Rightarrow> Err err)
             \<and> store (snd (snd (Handle srt e r w))) =
                 (case updateStatus e (length (updateCalls w)) of
                    None \<Rightarrow> Status (fst (snd (Handle srt e r w))) | Some err \<Rightarrow> store w))
        \<and> (\<forall>steps (w0::world). unselected (store w0) \<longrightarrow>
             prefix (handoffs srt r steps w0) (map (\<lambda>i. Some (InterceptorClass i)) ?order)
           \<and> distinct (handoffs srt r steps w0)
           \<and> ((\<forall>step \<in> set steps. targetPresent (fst step) r
                    \<and> (\<forall>n. updateStatus (fst step) n = None))
                \<and> (\<forall>step \<in> set (tl steps). ActiveInterceptorCompleted (snd step)) \<longrightarrow>
                handoffs srt r steps w0 =
                  take (length steps) (map (\<lambda>i. Some (InterceptorClass i)) ?order)
              \<and> (length (Interceptors (Spec r)) \<le> length steps \<longrightarrow>
                   handoffs srt r steps w0 = map (\<lambda>i. Some (InterceptorClass i)) ?order)))"
  proof
    assume dn: "distinct (map InterceptorClass (Interceptors (Spec r)))
            \<and> '''' \<notin> InterceptorClass ` set (Interceptors (Spec r))"
    have d: "distinct (map InterceptorClass ?order)"
      using dn by (simp add: sorted_distinct_classes[OF assms(1)])
    have ne: "'''' \<notin> InterceptorClass ` set ?order"
      using dn by (simp add: sorted_set[OF assms(1)])
    have o: "?order \<noteq> []" using hr by simp
    have step: "\<forall>j. Suc j < length (Interceptors (Spec r))
               \<and> ActiveInterceptorClass (Status r) = Some (InterceptorClass (?order ! j))
               \<and> ActiveInterceptorCompleted (Status r) \<longrightarrow>
               fst (snd (Handle srt e r w)) =
                 r\<lparr>Status := (Status r)\<lparr>ActiveInterceptorClass :=
                      Some (InterceptorClass (?order ! Suc j))\<rparr>\<rparr>
             \<and> updateCalls (snd (snd (Handle srt e r w))) =
                 updateCalls w @ [fst (snd (Handle srt e r w))]
             \<and> fst (Handle srt e r w) =
                 (case updateStatus e (length (updateCalls w)) of
                    None \<Rightarrow> Ok | Some err \<Rightarrow> Err err)
             \<and> store (snd (snd (Handle srt e r w))) =
                 (case updateStatus e (length (updateCalls w)) of
                    None \<Rightarrow> Status (fst (snd (Handle srt e r w))) | Some err \<Rightarrow> store w)"
    proof (intro allI impI)
      fix j
      assume a: "Suc j < length (Interceptors (Spec r))
               \<and> ActiveInterceptorClass (Status r) = Some (InterceptorClass (?order ! j))
               \<and> ActiveInterceptorCompleted (Status r)"
      then have j: "j < length ?order" "Suc j < length ?order" using len by simp_all
      have idx: "findInterceptorIndex ?order (InterceptorClass (?order ! j)) = int j"
        using findInterceptorIndex_distinct[OF d j(1)] .
      have "InterceptorClass (?order ! j) \<in> InterceptorClass ` set ?order" using j(1) by simp
      with ne have c: "InterceptorClass (?order ! j) \<noteq> ''''" by metis
      have H: "Handle srt e r w =
           updateEvictionRequestStatus e
             (r\<lparr>Status := (Status r)\<lparr>ActiveInterceptorClass :=
                  Some (InterceptorClass (?order ! Suc j))\<rparr>\<rparr>) w"
        using Handle_completed_next[of r "InterceptorClass (?order ! j)" srt e w] a c idx j
        by (simp add: nat_add_distrib)
      show "fst (snd (Handle srt e r w)) =
                 r\<lparr>Status := (Status r)\<lparr>ActiveInterceptorClass :=
                      Some (InterceptorClass (?order ! Suc j))\<rparr>\<rparr>
             \<and> updateCalls (snd (snd (Handle srt e r w))) =
                 updateCalls w @ [fst (snd (Handle srt e r w))]
             \<and> fst (Handle srt e r w) =
                 (case updateStatus e (length (updateCalls w)) of
                    None \<Rightarrow> Ok | Some err \<Rightarrow> Err err)
             \<and> store (snd (snd (Handle srt e r w))) =
                 (case updateStatus e (length (updateCalls w)) of
                    None \<Rightarrow> Status (fst (snd (Handle srt e r w))) | Some err \<Rightarrow> store w)"
        unfolding H
        by (simp add: updateEvictionRequestStatus_eq UpdateStatus_calls UpdateStatus_store
              split: option.splits)
    qed
    have run: "\<forall>steps (w0::world). unselected (store w0) \<longrightarrow>
             prefix (handoffs srt r steps w0) (map (\<lambda>i. Some (InterceptorClass i)) ?order)
           \<and> distinct (handoffs srt r steps w0)
           \<and> ((\<forall>step \<in> set steps. targetPresent (fst step) r
                    \<and> (\<forall>n. updateStatus (fst step) n = None))
                \<and> (\<forall>step \<in> set (tl steps). ActiveInterceptorCompleted (snd step)) \<longrightarrow>
                handoffs srt r steps w0 =
                  take (length steps) (map (\<lambda>i. Some (InterceptorClass i)) ?order)
              \<and> (length (Interceptors (Spec r)) \<le> length steps \<longrightarrow>
                   handoffs srt r steps w0 = map (\<lambda>i. Some (InterceptorClass i)) ?order))"
    proof (intro allI impI)
      fix steps and w0 :: world
      assume u: "unselected (store w0)"
      have s: "selected ?order 0 (ActiveInterceptorClass (store w0))"
        using u by (simp add: selected_def unselected_def)
      have p: "prefix (handoffs srt r steps w0) (map (\<lambda>i. Some (InterceptorClass i)) ?order)"
        using handoffs_prefix[OF d ne s, of steps] by simp
      have "distinct (map (\<lambda>i. Some (InterceptorClass i)) ?order)"
        using d by (simp add: distinct_map inj_on_def)
      with p have dh: "distinct (handoffs srt r steps w0)"
        by (metis distinct_append prefix_def)
      have all: "(\<forall>step \<in> set steps. targetPresent (fst step) r
                    \<and> (\<forall>n. updateStatus (fst step) n = None))
                \<and> (\<forall>step \<in> set (tl steps). ActiveInterceptorCompleted (snd step)) \<longrightarrow>
                handoffs srt r steps w0 =
                  take (length steps) (map (\<lambda>i. Some (InterceptorClass i)) ?order)
              \<and> (length (Interceptors (Spec r)) \<le> length steps \<longrightarrow>
                   handoffs srt r steps w0 = map (\<lambda>i. Some (InterceptorClass i)) ?order)"
      proof
        assume c: "(\<forall>step \<in> set steps. targetPresent (fst step) r
                    \<and> (\<forall>n. updateStatus (fst step) n = None))
                \<and> (\<forall>step \<in> set (tl steps). ActiveInterceptorCompleted (snd step))"
        have t: "handoffs srt r steps w0 =
            take (length steps) (map (\<lambda>i. Some (InterceptorClass i)) ?order)"
          using handoffs_complete[OF d ne assms(2) o s, of steps] c by simp
        then show "handoffs srt r steps w0 =
                  take (length steps) (map (\<lambda>i. Some (InterceptorClass i)) ?order)
              \<and> (length (Interceptors (Spec r)) \<le> length steps \<longrightarrow>
                   handoffs srt r steps w0 = map (\<lambda>i. Some (InterceptorClass i)) ?order)"
          using len by simp
      qed
      from p dh all
      show "prefix (handoffs srt r steps w0) (map (\<lambda>i. Some (InterceptorClass i)) ?order)
           \<and> distinct (handoffs srt r steps w0)
           \<and> ((\<forall>step \<in> set steps. targetPresent (fst step) r
                    \<and> (\<forall>n. updateStatus (fst step) n = None))
                \<and> (\<forall>step \<in> set (tl steps). ActiveInterceptorCompleted (snd step)) \<longrightarrow>
                handoffs srt r steps w0 =
                  take (length steps) (map (\<lambda>i. Some (InterceptorClass i)) ?order)
              \<and> (length (Interceptors (Spec r)) \<le> length steps \<longrightarrow>
                   handoffs srt r steps w0 = map (\<lambda>i. Some (InterceptorClass i)) ?order))"
        by (intro conjI)
    qed
    from step run
    show "(\<forall>j. Suc j < length (Interceptors (Spec r))
               \<and> ActiveInterceptorClass (Status r) = Some (InterceptorClass (?order ! j))
               \<and> ActiveInterceptorCompleted (Status r) \<longrightarrow>
               fst (snd (Handle srt e r w)) =
                 r\<lparr>Status := (Status r)\<lparr>ActiveInterceptorClass :=
                      Some (InterceptorClass (?order ! Suc j))\<rparr>\<rparr>
             \<and> updateCalls (snd (snd (Handle srt e r w))) =
                 updateCalls w @ [fst (snd (Handle srt e r w))]
             \<and> fst (Handle srt e r w) =
                 (case updateStatus e (length (updateCalls w)) of
                    None \<Rightarrow> Ok | Some err \<Rightarrow> Err err)
             \<and> store (snd (snd (Handle srt e r w))) =
                 (case updateStatus e (length (updateCalls w)) of
                    None \<Rightarrow> Status (fst (snd (Handle srt e r w))) | Some err \<Rightarrow> store w))
        \<and> (\<forall>steps (w0::world). unselected (store w0) \<longrightarrow>
             prefix (handoffs srt r steps w0) (map (\<lambda>i. Some (InterceptorClass i)) ?order)
           \<and> distinct (handoffs srt r steps w0)
           \<and> ((\<forall>step \<in> set steps. targetPresent (fst step) r
                    \<and> (\<forall>n. updateStatus (fst step) n = None))
                \<and> (\<forall>step \<in> set (tl steps). ActiveInterceptorCompleted (snd step)) \<longrightarrow>
                handoffs srt r steps w0 =
                  take (length steps) (map (\<lambda>i. Some (InterceptorClass i)) ?order)
              \<and> (length (Interceptors (Spec r)) \<le> length steps \<longrightarrow>
                   handoffs srt r steps w0 = map (\<lambda>i. Some (InterceptorClass i)) ?order)))"
      by (intro conjI)
  qed
  from first perm desc keyed show ?thesis by (intro conjI)
qed

text \<open>
  Scenario A: interceptors \<open>a\<close> (priority 10) and \<open>b\<close> (20), no active class: \<open>b\<close> is
  selected and stored. With \<open>b\<close> active and completed the handler makes \<open>a\<close> active. A run
  of two reconciliations, \<open>b\<close> reporting completion in between, hands over to \<open>b\<close>, then
  to \<open>a\<close>; with a third interceptor \<open>c\<close> (30), a run of three hands over to \<open>c\<close>, \<open>b\<close>
  and \<open>a\<close>.
\<close>

theorem C5_handoff_follows_priority_order_witness:
  "sort_Slice_contract insertionSortLessFunc
   \<and> unselected emptyStatus
   \<and> distinct (map InterceptorClass [interceptorA, interceptorB, interceptorC])
   \<and> '''' \<notin> InterceptorClass ` set [interceptorA, interceptorB, interceptorC]
   \<and> ActiveInterceptorClass (Status (fst (snd
        (Handle insertionSortLessFunc (exampleEnv 100 None (\<lambda>_. None))
           (exampleRequest [interceptorA, interceptorB] emptyStatus) (emptyWorld emptyStatus))))) =
       Some ''b''
   \<and> ActiveInterceptorClass (store (snd (snd
        (Handle insertionSortLessFunc (exampleEnv 100 None (\<lambda>_. None))
           (exampleRequest [interceptorA, interceptorB] emptyStatus) (emptyWorld emptyStatus))))) =
       Some ''b''
   \<and> ActiveInterceptorClass (Status (fst (snd
        (Handle insertionSortLessFunc (exampleEnv 100 None (\<lambda>_. None))
           (exampleRequest [interceptorA, interceptorB] completedB) (emptyWorld completedB))))) =
       Some ''a''
   \<and> list_all (\<lambda>step. targetPresent (fst step)
           (exampleRequest [interceptorA, interceptorB, interceptorC] emptyStatus)
         \<and> updateStatus (fst step) = (\<lambda>_. None)) threeReconciliations
   \<and> list_all (\<lambda>step. ActiveInterceptorCompleted (snd step)) (tl threeReconciliations)
   \<and> handoffs insertionSortLessFunc (exampleRequest [interceptorA, interceptorB] emptyStatus)
        twoReconciliations (emptyWorld emptyStatus) = [Some ''b'', Some ''a'']
   \<and> handoffs insertionSortLessFunc
        (exampleRequest [interceptorA, interceptorB, interceptorC] emptyStatus)
        twoReconciliations (emptyWorld emptyStatus) = [Some ''c'', Some ''b'']
   \<and> handoffs insertionSortLessFunc
        (exampleRequest [interceptorA, interceptorB, interceptorC] emptyStatus)
        threeReconciliations (emptyWorld emptyStatus) = [Some ''c'', Some ''b'', Some ''a'']"
proof -
  let ?r = "exampleRequest [interceptorA, interceptorB] emptyStatus"
  let ?rb = "exampleRequest [interceptorA, interceptorB] completedB"
  let ?rc = "exampleRequest [interceptorA, interceptorB, interceptorC] emptyStatus"
  let ?e = "exampleEnv 100 None (\<lambda>_. None)"
  let ?w = "emptyWorld emptyStatus"
  let ?wb = "emptyWorld completedB"
  let ?srt = "sortInterceptorsByPriority insertionSortLessFunc"
  have n: "Interceptors (Spec ?r) \<noteq> []" "Interceptors (Spec ?rb) \<noteq> []"
      "Interceptors (Spec ?rc) \<noteq> []"
    by (simp_all add: exampleRequest_def exampleSpec_def)
  have i: "Interceptors (Spec ?r) = [interceptorA, interceptorB]"
    and ib: "Interceptors (Spec ?rb) = [interceptorA, interceptorB]"
    and ic: "Interceptors (Spec ?rc) = [interceptorA, interceptorB, interceptorC]"
    by (simp_all add: exampleRequest_def exampleSpec_def)
  have o: "?srt (Interceptors (Spec ?r)) = [interceptorB, interceptorA]"
    and ob: "?srt (Interceptors (Spec ?rb)) = [interceptorB, interceptorA]"
    by (simp_all add: i ib sorted_example)
  have oc: "?srt (Interceptors (Spec ?rc)) = [interceptorC, interceptorB, interceptorA]"
    unfolding ic
    by (simp add: sortInterceptorsByPriority_def insertionSortLessFunc_def byPriority_def
          interceptorA_def interceptorB_def interceptorC_def)
  have u: "unselected (Status ?r)" "unselected (store ?w)" "unselected emptyStatus"
    by (simp_all add: unselected_def exampleRequest_def emptyWorld_def emptyStatus_def)
  have d: "distinct (map InterceptorClass (Interceptors (Spec ?r)))
           \<and> '''' \<notin> InterceptorClass ` set (Interceptors (Spec ?r))"
    and db: "distinct (map InterceptorClass (Interceptors (Spec ?rb)))
           \<and> '''' \<notin> InterceptorClass ` set (Interceptors (Spec ?rb))"
    unfolding i ib by (simp_all add: interceptorA_def interceptorB_def)
  have dc: "distinct (map InterceptorClass (Interceptors (Spec ?rc)))
           \<and> '''' \<notin> InterceptorClass ` set (Interceptors (Spec ?rc))"
    unfolding ic by (simp add: interceptorA_def interceptorB_def interceptorC_def)
  note C5 = C5_handoff_follows_priority_order[OF insertionSortLessFunc_contract n(1), of ?e ?w]
  note C5b = C5_handoff_follows_priority_order[OF insertionSortLessFunc_contract n(2), of ?e ?wb]
  note C5c = C5_handoff_follows_priority_order[OF insertionSortLessFunc_contract n(3), of ?e ?w]
  from C5 u(1) have sel: "ActiveInterceptorClass (Status (fst (snd (Handle insertionSortLessFunc ?e ?r ?w)))) =
        Some (InterceptorClass (hd (?srt (Interceptors (Spec ?r)))))
      \<and> store (snd (snd (Handle insertionSortLessFunc ?e ?r ?w))) =
              (case updateStatus ?e (length (updateCalls ?w)) of
                 None \<Rightarrow> Status (fst (snd (Handle insertionSortLessFunc ?e ?r ?w))) | Some err \<Rightarrow> store ?w)"
    by blast
  have upd: "updateStatus ?e (length (updateCalls ?w)) = None"
    by (simp add: exampleEnv_def)
  have sel1: "ActiveInterceptorClass (Status (fst (snd (Handle insertionSortLessFunc ?e ?r ?w)))) =
      Some ''b''"
    using sel unfolding o by (simp add: interceptorB_def)
  have st1: "ActiveInterceptorClass (store (snd (snd (Handle insertionSortLessFunc ?e ?r ?w)))) =
      Some ''b''"
    using sel sel1 upd by simp
  have ab: "Suc 0 < length (Interceptors (Spec ?rb))
        \<and> ActiveInterceptorClass (Status ?rb) =
            Some (InterceptorClass (?srt (Interceptors (Spec ?rb)) ! 0))
        \<and> ActiveInterceptorCompleted (Status ?rb)"
    unfolding ob by (simp add: exampleRequest_def exampleSpec_def completedB_def interceptorB_def)
  from C5b db ab
  have "fst (snd (Handle insertionSortLessFunc ?e ?rb ?wb)) =
      ?rb\<lparr>Status := (Status ?rb)\<lparr>ActiveInterceptorClass :=
             Some (InterceptorClass (?srt (Interceptors (Spec ?rb)) ! Suc 0))\<rparr>\<rparr>"
    by blast
  then have next1: "ActiveInterceptorClass (Status (fst (snd (Handle insertionSortLessFunc ?e ?rb ?wb)))) =
      Some ''a''"
    unfolding ob by (simp add: interceptorA_def)
  have t2: "\<forall>step \<in> set twoReconciliations. targetPresent (fst step) ?r
              \<and> (\<forall>n. updateStatus (fst step) n = None)"
    and t2c: "\<forall>step \<in> set twoReconciliations. targetPresent (fst step) ?rc
              \<and> (\<forall>n. updateStatus (fst step) n = None)"
    and t3c: "\<forall>step \<in> set threeReconciliations. targetPresent (fst step) ?rc
              \<and> (\<forall>n. updateStatus (fst step) n = None)"
    by (simp_all add: threeReconciliations_def twoReconciliations_def targetPresent_def
          example_defs)
  have c2: "\<forall>step \<in> set (tl twoReconciliations). ActiveInterceptorCompleted (snd step)"
    and c3: "\<forall>step \<in> set (tl threeReconciliations). ActiveInterceptorCompleted (snd step)"
    by (simp_all add: threeReconciliations_def twoReconciliations_def completedB_def)
  have l2: "length (Interceptors (Spec ?r)) \<le> length twoReconciliations"
    and l3: "length (Interceptors (Spec ?rc)) \<le> length threeReconciliations"
    by (simp_all add: i ic threeReconciliations_def twoReconciliations_def)
  from C5 d u(2) t2 c2 l2
  have "handoffs insertionSortLessFunc ?r twoReconciliations ?w =
      map (\<lambda>i. Some (InterceptorClass i)) (?srt (Interceptors (Spec ?r)))"
    by blast
  then have run2: "handoffs insertionSortLessFunc ?r twoReconciliations ?w = [Some ''b'', Some ''a'']"
    unfolding o by (simp add: interceptorA_def interceptorB_def)
  from C5c dc u(2) t2c c2
  have "handoffs insertionSortLessFunc ?rc twoReconciliations ?w =
      take (length twoReconciliations)
        (map (\<lambda>i. Some (InterceptorClass i)) (?srt (Interceptors (Spec ?rc))))"
    by blast
  then have run2c: "handoffs insertionSortLessFunc ?rc twoReconciliations ?w = [Some ''c'', Some ''b'']"
    unfolding oc by (simp add: twoReconciliations_def interceptorB_def interceptorC_def)
  from C5c dc u(2) t3c c3 l3
  have "handoffs insertionSortLessFunc ?rc threeReconciliations ?w =
      map (\<lambda>i. Some (InterceptorClass i)) (?srt (Interceptors (Spec ?rc)))"
    by blast
  then have run3: "handoffs insertionSortLessFunc ?rc threeReconciliations ?w =
      [Some ''c'', Some ''b'', Some ''a'']"
    unfolding oc by (simp add: interceptorA_def interceptorB_def interceptorC_def)
  have d1: "distinct (map InterceptorClass [interceptorA, interceptorB, interceptorC])"
    and d2: "'''' \<notin> InterceptorClass ` set [interceptorA, interceptorB, interceptorC]"
    using dc unfolding ic by simp_all
  have h1: "list_all (\<lambda>step. targetPresent (fst step) ?rc
         \<and> updateStatus (fst step) = (\<lambda>_. None)) threeReconciliations"
    using t3c by (simp add: list_all_iff fun_eq_iff)
  have h2: "list_all (\<lambda>step. ActiveInterceptorCompleted (snd step)) (tl threeReconciliations)"
    using c3 by (simp add: list_all_iff)
  from insertionSortLessFunc_contract u(3) d1 d2 sel1 st1 next1 h1 h2 run2 run2c run3
  show ?thesis by (intro conjI)
qed

section \<open>The Dispatcher invoked twice\<close>

lemma upserted_same:
  "findCondition (CondType c) cs = Some x \<Longrightarrow> x = c\<lparr>LastTransitionTime := LastTransitionTime x\<rparr> \<Longrightarrow>
   upserted t c cs = cs"
proof -
  assume f: "findCondition (CondType c) cs = Some x"
    and x: "x = c\<lparr>LastTransitionTime := LastTransitionTime x\<rparr>"
  have "replaceCondition t c cs = (cs, True)"
    using f x
  proof (induction cs)
    case Nil
    then show ?case by (simp add: findCondition_def)
  next
    case (Cons y ys)
    show ?case
    proof (cases "CondType y = CondType c")
      case True
      with Cons.prems have "y = x" by (simp add: findCondition_def)
      with Cons.prems(2) True show ?thesis
        by (cases x; cases c) auto
    next
      case False
      with Cons.prems have "findCondition (CondType c) ys = Some x" by (simp add: findCondition_def)
      from Cons.IH[OF this Cons.prems(2)] False show ?thesis by simp
    qed
  qed
  then show ?thesis by (simp add: upserted_def)
qed

lemma UpsertCondition_again:
  assumes "EvictionRequestCancellationPolicy (Status r) \<noteq> ''''"
  shows "Status (fst (snd (UpsertCondition eb
            (fst (snd (UpsertCondition ea r w ty st rs ms))) w' ty st rs ms))) =
         Status (fst (snd (UpsertCondition ea r w ty st rs ms)))"
proof -
  let ?r1 = "fst (snd (UpsertCondition ea r w ty st rs ms))"
  let ?c2 = "mkCondition (now eb) ty st rs ms"
  obtain t1 where f: "findCondition ty (Conditions (Status ?r1)) = Some (mkCondition t1 ty st rs ms)"
    using UpsertCondition_find[of ty ea r w st rs ms] by blast
  have "upserted (now eb) ?c2 (Conditions (Status ?r1)) = Conditions (Status ?r1)"
    by (rule upserted_same[where x = "mkCondition t1 ty st rs ms"])
       (simp_all add: f mkCondition_def)
  moreover have "EvictionRequestCancellationPolicy (Status ?r1) \<noteq> ''''"
    using assms by (simp add: UpsertCondition_request)
  ultimately show ?thesis
    by (simp add: UpsertCondition_request[of eb] defaultCancellationPolicy_def)
qed

lemma UpsertCondition_again_conditions:
  assumes "Conditions (Status r') = Conditions (Status (fst (snd (UpsertCondition ea r w ty st rs ms))))"
  shows "Conditions (Status (fst (snd (UpsertCondition eb r' w' ty st rs ms)))) = Conditions (Status r')"
proof -
  let ?c2 = "mkCondition (now eb) ty st rs ms"
  obtain t1 where f: "findCondition ty (Conditions (Status r')) = Some (mkCondition t1 ty st rs ms)"
    using UpsertCondition_find[of ty ea r w st rs ms] assms by auto
  have "upserted (now eb) ?c2 (Conditions (Status r')) = Conditions (Status r')"
    by (rule upserted_same[where x = "mkCondition t1 ty st rs ms"])
       (simp_all add: f mkCondition_def)
  then show ?thesis by (simp add: UpsertCondition_request[of eb])
qed

lemma Perform_again:
  assumes p: "EvictionRequestCancellationPolicy (Status r) \<noteq> ''''"
      and ref: "PodRef (Target (Spec r)) = Some ref"
      and pod: "podLister e1 (Namespace r) (RefName ref) = Found pod"
      and l: "podLister e2 = podLister e1" and v: "evictV1 e2 = evictV1 e1"
  shows "Conditions (Status (fst (snd (Perform e2 (fst (snd (Perform e1 r w))) w')))) =
           Conditions (Status (fst (snd (Perform e1 r w))))
       \<and> (evictV1 e1 (PodNamespace pod) (PodName pod) = None \<longrightarrow>
            Status (fst (snd (Perform e2 (fst (snd (Perform e1 r w))) w'))) =
              Status (fst (snd (Perform e1 r w))))
       \<and> (evictV1 e1 (PodNamespace pod) (PodName pod) \<noteq> None \<longrightarrow>
            failedCounter (Status (fst (snd (Perform e2 (fst (snd (Perform e1 r w))) w')))) =
              failedCounter (Status (fst (snd (Perform e1 r w)))) + 1)"
proof -
  let ?r1 = "fst (snd (Perform e1 r w))"
  have ref1: "PodRef (Target (Spec ?r1)) = Some ref"
    and pod1: "podLister e2 (Namespace ?r1) (RefName ref) = Found pod"
    using ref pod l by (simp_all add: Perform_frame)
  show ?thesis
  proof (cases "evictV1 e1 (PodNamespace pod) (PodName pod)")
    case None
    let ?w1 = "w\<lparr>evictCalls := evictCalls w @ [(PodNamespace pod, PodName pod)]\<rparr>"
    let ?w2 = "w'\<lparr>evictCalls := evictCalls w' @ [(PodNamespace pod, PodName pod)]\<rparr>"
    have r1: "?r1 = fst (snd (UpsertCondition e1 r ?w1 ConditionTypeEvicted ConditionTrue
                ReasonEvictionSucceeded ''Pod evicted successfully''))"
      using ref pod None by (simp add: Perform_effect)
    have "fst (snd (Perform e2 ?r1 w')) =
        fst (snd (UpsertCondition e2 ?r1 ?w2 ConditionTypeEvicted ConditionTrue
                ReasonEvictionSucceeded ''Pod evicted successfully''))"
      using ref1 pod1 None v by (simp add: Perform_effect[of e2])
    then have "Status (fst (snd (Perform e2 ?r1 w'))) = Status ?r1"
      using UpsertCondition_again[OF p, where eb = e2 and ea = e1 and w = ?w1 and w' = ?w2] r1 by simp
    with None show ?thesis by simp
  next
    case (Some err)
    let ?w1 = "w\<lparr>evictCalls := evictCalls w @ [(PodNamespace pod, PodName pod)]\<rparr>"
    let ?w2 = "w'\<lparr>evictCalls := evictCalls w' @ [(PodNamespace pod, PodName pod)]\<rparr>"
    let ?q = "defaultCancellationPolicy
                (r\<lparr>Status := (Status r)\<lparr>PodEvictionStatus :=
                   Some \<lparr>FailedAPIEvictionCounter = failedCounter (Status r) + 1\<rparr>\<rparr>\<rparr>)"
    let ?q1 = "defaultCancellationPolicy
                (?r1\<lparr>Status := (Status ?r1)\<lparr>PodEvictionStatus :=
                   Some \<lparr>FailedAPIEvictionCounter = failedCounter (Status ?r1) + 1\<rparr>\<rparr>\<rparr>)"
    have r1: "?r1 = fst (snd (UpsertCondition e1 ?q ?w1 ConditionTypeEvicted ConditionFalse
                ReasonEvictionFailed ''Failed to evict pod''))"
      using ref pod Some by (simp add: Perform_effect)
    have r2: "fst (snd (Perform e2 ?r1 w')) =
        fst (snd (UpsertCondition e2 ?q1 ?w2 ConditionTypeEvicted ConditionFalse
                ReasonEvictionFailed ''Failed to evict pod''))"
      using ref1 pod1 Some v by (simp add: Perform_effect[of e2])
    have "Conditions (Status ?q1) = Conditions (Status (fst (snd (UpsertCondition e1 ?q ?w1
            ConditionTypeEvicted ConditionFalse ReasonEvictionFailed ''Failed to evict pod''))))"
      using r1 by simp
    from UpsertCondition_again_conditions[OF this, where eb = e2 and w' = ?w2]
    have c: "Conditions (Status (fst (snd (Perform e2 ?r1 w')))) = Conditions (Status ?r1)"
      using r2 by simp
    have "failedCounter (Status (fst (snd (Perform e2 ?r1 w')))) = failedCounter (Status ?r1) + 1"
      unfolding r2 by (simp add: failedCounter_def UpsertCondition_frame)
    with c Some show ?thesis by simp
  qed
qed

lemma routeRequest_policy:
  "EvictionRequestCancellationPolicy (Status r) \<noteq> '''' \<Longrightarrow>
   EvictionRequestCancellationPolicy (Status (fst (snd (routeRequest srt e r w)))) =
     EvictionRequestCancellationPolicy (Status r)"
  by (auto simp: routeRequest_def Handle_cases Perform_policy split: list.splits)

lemma routeRequest_frame:
  "Spec (fst (snd (routeRequest srt e r w))) = Spec r"
  "Namespace (fst (snd (routeRequest srt e r w))) = Namespace r"
  by (simp_all add: routeRequest_def Handle_frame Perform_frame)

lemma Reconcile_frame:
  "Spec (fst (snd (ReconcileEvictionRequest srt e r w))) = Spec r"
  "Namespace (fst (snd (ReconcileEvictionRequest srt e r w))) = Namespace r"
  by (auto simp: Reconcile_cases routeRequest_frame split: option.splits)

lemma defaultCancellationPolicy_set:
  "EvictionRequestCancellationPolicy (Status (defaultCancellationPolicy r)) \<noteq> ''''"
  by (simp add: defaultCancellationPolicy_def Allow_def)

lemma Reconcile_policy:
  "targetPresent e r \<Longrightarrow>
   EvictionRequestCancellationPolicy (Status (fst (snd (ReconcileEvictionRequest srt e r w)))) \<noteq> ''''"
  using defaultCancellationPolicy_set[of r]
  by (auto simp: Reconcile_cases routeRequest_policy targetPresent_def split: option.splits)

lemma routeRequest_terminal:
  "terminal srt r \<Longrightarrow> routeRequest srt e r w = Perform e r w"
  by (auto simp: terminal_def routeRequest_def Handle_cases)

lemma terminal_cong:
  "Spec r' = Spec r \<Longrightarrow> ActiveInterceptorClass (Status r') = ActiveInterceptorClass (Status r) \<Longrightarrow>
   ActiveInterceptorCompleted (Status r') = ActiveInterceptorCompleted (Status r) \<Longrightarrow>
   terminal srt r' = terminal srt r"
  by (simp add: terminal_def unselected_def canAdvance_def)

lemma Perform_distinct:
  "distinct (map CondType (Conditions (Status r))) \<Longrightarrow>
   distinct (map CondType (Conditions (Status (fst (snd (Perform e r w))))))"
  by (simp add: Perform_effect UpsertCondition_request upserted_distinct
        split: option.splits lookup.splits)

lemma routeRequest_distinct:
  "distinct (map CondType (Conditions (Status r))) \<Longrightarrow>
   distinct (map CondType (Conditions (Status (fst (snd (routeRequest srt e r w))))))"
  by (auto simp: routeRequest_def Handle_cases Perform_distinct split: list.splits)

lemma Reconcile_distinct:
  "distinct (map CondType (Conditions (Status r))) \<Longrightarrow>
   distinct (map CondType (Conditions (Status (fst (snd (ReconcileEvictionRequest srt e r w))))))"
  by (auto simp: Reconcile_cases routeRequest_distinct split: option.splits)

lemma Reconcile_reaches_route:
  assumes "targetPresent e r"
      and "EvictionRequestCancellationPolicy (Status r) = '''' \<longrightarrow>
           updateStatus e (length (updateCalls w)) = None"
  shows "\<exists>w'. ReconcileEvictionRequest srt e r w = routeRequest srt e (defaultCancellationPolicy r) w'"
  using assms
  by (auto simp: Reconcile_cases targetPresent_def defaultCancellationPolicy_def split: option.splits)

lemma Reconcile_absent:
  "\<not> targetPresent e r \<Longrightarrow> snd (ReconcileEvictionRequest srt e r w) = (r, w)"
  by (simp add: Reconcile_cases)

lemma reconcileTwice_eq:
  "reconcileTwice srt e e' r w =
     ReconcileEvictionRequest srt e' (fst (snd (ReconcileEvictionRequest srt e r w)))
       (snd (snd (ReconcileEvictionRequest srt e r w)))"
  by (simp add: reconcileTwice_def split: prod.splits)

text \<open>
  Claim C2, as stated, fails. With no interceptors and the eviction blocked, each
  invocation is a new attempt and counts its failure: after one invocation the counter
  is 1, after two it is 2. With interceptor \<open>b\<close> active and its heartbeat deadline
  exceeded, the first invocation sets the completed flag and the second, in the same
  environment, hands over to \<open>a\<close>.
\<close>

theorem C2_second_invocation_changes_the_status:
  "Status (fst (snd (reconcileTwice insertionSortLessFunc
      (exampleEnv 100 (Some budgetError) (\<lambda>_. None)) (exampleEnv 100 (Some budgetError) (\<lambda>_. None))
      (exampleRequest [] emptyStatus) (emptyWorld emptyStatus)))) \<noteq>
   Status (fst (snd (ReconcileEvictionRequest insertionSortLessFunc
      (exampleEnv 100 (Some budgetError) (\<lambda>_. None))
      (exampleRequest [] emptyStatus) (emptyWorld emptyStatus))))
   \<and> failedCounter (Status (fst (snd (ReconcileEvictionRequest insertionSortLessFunc
      (exampleEnv 100 (Some budgetError) (\<lambda>_. None))
      (exampleRequest [] emptyStatus) (emptyWorld emptyStatus))))) = 1
   \<and> failedCounter (Status (fst (snd (reconcileTwice insertionSortLessFunc
      (exampleEnv 100 (Some budgetError) (\<lambda>_. None)) (exampleEnv 100 (Some budgetError) (\<lambda>_. None))
      (exampleRequest [] emptyStatus) (emptyWorld emptyStatus))))) = 2
   \<and> Status (fst (snd (ReconcileEvictionRequest insertionSortLessFunc
      (exampleEnv 1800000000001 None (\<lambda>_. None))
      (exampleRequest [interceptorA, interceptorB] (pendingB 0)) (emptyWorld (pendingB 0))))) =
       (pendingB 0)\<lparr>ActiveInterceptorCompleted := True\<rparr>
   \<and> Status (fst (snd (reconcileTwice insertionSortLessFunc
      (exampleEnv 1800000000001 None (\<lambda>_. None)) (exampleEnv 1800000000001 None (\<lambda>_. None))
      (exampleRequest [interceptorA, interceptorB] (pendingB 0)) (emptyWorld (pendingB 0))))) =
       (pendingB 0)\<lparr>ActiveInterceptorCompleted := True, ActiveInterceptorClass := Some ''a''\<rparr>"
  by (simp add: reconcileTwice_def example_defs pendingB_def failedCounter_def eval_defs)

text \<open>
  Claim C2, amended. Let the Dispatcher be invoked twice in succession, the pod lister
  and the eviction call answering the second time as the first. The status after the
  second invocation is the status after the first where the target is absent or not the
  recorded one; where the request has interceptors and the first invocation leaves an
  active class that is not completed and whose heartbeat deadline is not exceeded at the
  second invocation (which then changes nothing and writes nothing); and where both
  invocations perform the terminal eviction and it succeeds. Where both perform the
  terminal eviction the conditions are the same after the second as after the first,
  whether the eviction succeeds or fails, and a failed one is counted once more. In
  every case conditions that were unique per type stay so.
\<close>

theorem C2_second_invocation:
  assumes first: "ReconcileEvictionRequest srt e r w = (out1, r1, w1)"
      and second: "ReconcileEvictionRequest srt e' r1 w1 = (out2, r2, w2)"
      and lister: "podLister e' = podLister e" and evict: "evictV1 e' = evictV1 e"
  shows "(\<not> targetPresent e r \<longrightarrow> Status r1 = Status r \<and> Status r2 = Status r)
       \<and> (targetPresent e r \<and> Interceptors (Spec r) \<noteq> [] \<and> \<not> unselected (Status r1)
            \<and> \<not> ActiveInterceptorCompleted (Status r1) \<and> \<not> deadlineExceeded e' r1 \<longrightarrow>
              (out2, r2, w2) = (Ok, r1, w1))
       \<and> (targetPresent e r \<and> terminal srt r
            \<and> (EvictionRequestCancellationPolicy (Status r) = '''' \<longrightarrow>
                 updateStatus e (length (updateCalls w)) = None) \<longrightarrow>
              Conditions (Status r2) = Conditions (Status r1)
            \<and> (evictionOutcome e r = None \<longrightarrow> Status r2 = Status r1)
            \<and> (evictionOutcome e r \<noteq> None \<longrightarrow>
                 failedCounter (Status r2) = failedCounter (Status r1) + 1))
       \<and> (distinct (map CondType (Conditions (Status r))) \<longrightarrow>
            distinct (map CondType (Conditions (Status r2))))"
proof -
  have r1: "r1 = fst (snd (ReconcileEvictionRequest srt e r w))"
    and w1: "w1 = snd (snd (ReconcileEvictionRequest srt e r w))"
    using first by simp_all
  have r2: "r2 = fst (snd (ReconcileEvictionRequest srt e' r1 w1))"
    using second by simp
  have spec1: "Spec r1 = Spec r" and ns1: "Namespace r1 = Namespace r"
    by (simp_all add: r1 Reconcile_frame)
  have present2: "targetPresent e' r1 = targetPresent e r"
    by (rule targetPresent_cong[OF spec1 ns1 lister])
  have absent: "\<not> targetPresent e r \<longrightarrow> Status r1 = Status r \<and> Status r2 = Status r"
  proof
    assume a: "\<not> targetPresent e r"
    then have "r1 = r" using Reconcile_absent[OF a, of srt w] first by simp
    moreover have "r2 = r1"
      using Reconcile_absent[of e' r1 srt w1] a present2 second by simp
    ultimately show "Status r1 = Status r \<and> Status r2 = Status r" by simp
  qed
  have waiting: "targetPresent e r \<and> Interceptors (Spec r) \<noteq> [] \<and> \<not> unselected (Status r1)
            \<and> \<not> ActiveInterceptorCompleted (Status r1) \<and> \<not> deadlineExceeded e' r1 \<longrightarrow>
              (out2, r2, w2) = (Ok, r1, w1)"
  proof
    assume h: "targetPresent e r \<and> Interceptors (Spec r) \<noteq> [] \<and> \<not> unselected (Status r1)
            \<and> \<not> ActiveInterceptorCompleted (Status r1) \<and> \<not> deadlineExceeded e' r1"
    then obtain c where c: "ActiveInterceptorClass (Status r1) = Some c" "c \<noteq> ''''"
      by (auto simp: unselected_def)
    have p: "EvictionRequestCancellationPolicy (Status r1) \<noteq> ''''"
      using h by (simp add: r1 Reconcile_policy)
    have "ReconcileEvictionRequest srt e' r1 w1 = routeRequest srt e' r1 w1"
      using h present2 p by (simp add: Reconcile_routes)
    also have "\<dots> = Handle srt e' r1 w1" using h spec1 by (simp add: routeRequest_def)
    also have "\<dots> = (Ok, r1, w1)" using Handle_pending[OF c, of srt e' w1] h by simp
    finally show "(out2, r2, w2) = (Ok, r1, w1)" using second by simp
  qed
  have evicting: "targetPresent e r \<and> terminal srt r
            \<and> (EvictionRequestCancellationPolicy (Status r) = '''' \<longrightarrow>
                 updateStatus e (length (updateCalls w)) = None) \<longrightarrow>
              Conditions (Status r2) = Conditions (Status r1)
            \<and> (evictionOutcome e r = None \<longrightarrow> Status r2 = Status r1)
            \<and> (evictionOutcome e r \<noteq> None \<longrightarrow>
                 failedCounter (Status r2) = failedCounter (Status r1) + 1)"
  proof
    assume h: "targetPresent e r \<and> terminal srt r
            \<and> (EvictionRequestCancellationPolicy (Status r) = '''' \<longrightarrow>
                 updateStatus e (length (updateCalls w)) = None)"
    let ?q = "defaultCancellationPolicy r"
    from h obtain ref pod where ref: "PodRef (Target (Spec r)) = Some ref"
      and pod: "podLister e (Namespace r) (RefName ref) = Found pod"
      by (auto simp: targetPresent_def split: option.splits lookup.splits)
    have out: "evictionOutcome e r = evictV1 e (PodNamespace pod) (PodName pod)"
      using ref pod by (simp add: evictionOutcome_def)
    obtain w' where "ReconcileEvictionRequest srt e r w = routeRequest srt e ?q w'"
      using Reconcile_reaches_route[of e r w srt] h by blast
    moreover have tq: "terminal srt ?q" using h terminal_cong[of ?q r srt] by simp
    ultimately have f: "ReconcileEvictionRequest srt e r w = Perform e ?q w'"
      by (simp add: routeRequest_terminal)
    then have r1q: "r1 = fst (snd (Perform e ?q w'))" by (simp add: r1)
    have p1: "EvictionRequestCancellationPolicy (Status r1) \<noteq> ''''"
      using h by (simp add: r1 Reconcile_policy)
    have t1: "terminal srt r1"
      using tq terminal_cong[of r1 ?q srt] by (simp add: r1q Perform_frame)
    have "ReconcileEvictionRequest srt e' r1 w1 = routeRequest srt e' r1 w1"
      using h present2 p1 by (simp add: Reconcile_routes)
    then have s: "ReconcileEvictionRequest srt e' r1 w1 = Perform e' r1 w1"
      using t1 by (simp add: routeRequest_terminal)
    then have r2q: "r2 = fst (snd (Perform e' (fst (snd (Perform e ?q w'))) w1))"
      by (simp add: r2 r1q)
    have "EvictionRequestCancellationPolicy (Status ?q) \<noteq> ''''" by (rule defaultCancellationPolicy_set)
    moreover have "PodRef (Target (Spec ?q)) = Some ref" using ref by simp
    moreover have "podLister e (Namespace ?q) (RefName ref) = Found pod" using pod by simp
    ultimately show "Conditions (Status r2) = Conditions (Status r1)
            \<and> (evictionOutcome e r = None \<longrightarrow> Status r2 = Status r1)
            \<and> (evictionOutcome e r \<noteq> None \<longrightarrow>
                 failedCounter (Status r2) = failedCounter (Status r1) + 1)"
      using Perform_again[of ?q ref e pod e' w' w1] lister evict
      unfolding r2q r1q out by blast
  qed
  have unique: "distinct (map CondType (Conditions (Status r))) \<longrightarrow>
            distinct (map CondType (Conditions (Status r2)))"
    by (simp add: r2 r1 Reconcile_distinct)
  from absent waiting evicting unique show ?thesis by blast
qed

text \<open>
  The four cases: the pod is absent; Scenario A twice (\<open>b\<close> is selected, then waited
  for); no interceptors and the eviction succeeding twice; no interceptors and the
  eviction blocked twice.
\<close>

theorem C2_second_invocation_witness:
  "\<not> targetPresent absentEnv (exampleRequest [] emptyStatus)
   \<and> Status (fst (snd (reconcileTwice insertionSortLessFunc absentEnv absentEnv
        (exampleRequest [] emptyStatus) (emptyWorld emptyStatus)))) = emptyStatus
   \<and> targetPresent (exampleEnv 100 None (\<lambda>_. None)) (exampleRequest [interceptorA, interceptorB] emptyStatus)
   \<and> \<not> deadlineExceeded (exampleEnv 200 None (\<lambda>_. None))
        (fst (snd (ReconcileEvictionRequest insertionSortLessFunc (exampleEnv 100 None (\<lambda>_. None))
           (exampleRequest [interceptorA, interceptorB] emptyStatus) (emptyWorld emptyStatus))))
   \<and> Status (fst (snd (reconcileTwice insertionSortLessFunc
        (exampleEnv 100 None (\<lambda>_. None)) (exampleEnv 200 None (\<lambda>_. None))
        (exampleRequest [interceptorA, interceptorB] emptyStatus) (emptyWorld emptyStatus)))) =
      Status (fst (snd (ReconcileEvictionRequest insertionSortLessFunc (exampleEnv 100 None (\<lambda>_. None))
        (exampleRequest [interceptorA, interceptorB] emptyStatus) (emptyWorld emptyStatus))))
   \<and> terminal insertionSortLessFunc (exampleRequest [] emptyStatus)
   \<and> evictionOutcome (exampleEnv 100 None (\<lambda>_. None)) (exampleRequest [] emptyStatus) = None
   \<and> Status (fst (snd (reconcileTwice insertionSortLessFunc
        (exampleEnv 100 None (\<lambda>_. None)) (exampleEnv 200 None (\<lambda>_. None))
        (exampleRequest [] emptyStatus) (emptyWorld emptyStatus)))) =
      Status (fst (snd (ReconcileEvictionRequest insertionSortLessFunc (exampleEnv 100 None (\<lambda>_. None))
        (exampleRequest [] emptyStatus) (emptyWorld emptyStatus))))
   \<and> evictionOutcome (exampleEnv 100 (Some budgetError) (\<lambda>_. None)) (exampleRequest [] emptyStatus) \<noteq> None
   \<and> Conditions (Status (fst (snd (reconcileTwice insertionSortLessFunc
        (exampleEnv 100 (Some budgetError) (\<lambda>_. None)) (exampleEnv 200 (Some budgetError) (\<lambda>_. None))
        (exampleRequest [] emptyStatus) (emptyWorld emptyStatus))))) =
      Conditions (Status (fst (snd (ReconcileEvictionRequest insertionSortLessFunc
        (exampleEnv 100 (Some budgetError) (\<lambda>_. None))
        (exampleRequest [] emptyStatus) (emptyWorld emptyStatus)))))
   \<and> failedCounter (Status (fst (snd (reconcileTwice insertionSortLessFunc
        (exampleEnv 100 (Some budgetError) (\<lambda>_. None)) (exampleEnv 200 (Some budgetError) (\<lambda>_. None))
        (exampleRequest [] emptyStatus) (emptyWorld emptyStatus))))) =
      failedCounter (Status (fst (snd (ReconcileEvictionRequest insertionSortLessFunc
        (exampleEnv 100 (Some budgetError) (\<lambda>_. None))
        (exampleRequest [] emptyStatus) (emptyWorld emptyStatus))))) + 1
   \<and> distinct (map CondType (Conditions (Status (exampleRequest [] emptyStatus))))
   \<and> distinct (map CondType (Conditions (Status (fst (snd (reconcileTwice insertionSortLessFunc
        (exampleEnv 100 (Some budgetError) (\<lambda>_. None)) (exampleEnv 200 (Some budgetError) (\<lambda>_. None))
        (exampleRequest [] emptyStatus) (emptyWorld emptyStatus)))))))"
proof -
  let ?ok = "exampleEnv 100 None (\<lambda>_. None)"
  let ?ok' = "exampleEnv 200 None (\<lambda>_. None)"
  let ?no = "exampleEnv 100 (Some budgetError) (\<lambda>_. None)"
  let ?no' = "exampleEnv 200 (Some budgetError) (\<lambda>_. None)"
  let ?w = "emptyWorld emptyStatus"
  let ?ab = "exampleRequest [interceptorA, interceptorB] emptyStatus"
  let ?none = "exampleRequest [] emptyStatus"
  have l: "podLister ?ok' = podLister ?ok" "podLister ?no' = podLister ?no"
    and v: "evictV1 ?ok' = evictV1 ?ok" "evictV1 ?no' = evictV1 ?no"
    by (simp_all add: exampleEnv_def)
  note gone = C2_second_invocation[OF triple triple refl refl,
      where srt = insertionSortLessFunc and e = absentEnv and r = ?none and w = ?w]
  note waits = C2_second_invocation[OF triple triple l(1) v(1),
      where srt = insertionSortLessFunc and r = ?ab and w = ?w]
  note evicted = C2_second_invocation[OF triple triple l(1) v(1),
      where srt = insertionSortLessFunc and r = ?none and w = ?w]
  note blocked = C2_second_invocation[OF triple triple l(2) v(2),
      where srt = insertionSortLessFunc and r = ?none and w = ?w]
  have a: "\<not> targetPresent absentEnv ?none"
    by (simp add: targetPresent_def absentEnv_def example_defs)
  have p: "targetPresent ?ok ?ab" "targetPresent ?ok ?none" "targetPresent ?no ?none"
    by (simp_all add: targetPresent_def example_defs)
  have t: "terminal insertionSortLessFunc ?none"
    by (simp add: terminal_def exampleRequest_def exampleSpec_def)
  have u: "updateStatus ?ok (length (updateCalls ?w)) = None"
          "updateStatus ?no (length (updateCalls ?w)) = None"
    by (simp_all add: exampleEnv_def)
  have o: "evictionOutcome ?ok ?none = None" "evictionOutcome ?no ?none \<noteq> None"
    by (simp_all add: evictionOutcome_def example_defs)
  have first: "Status (fst (snd (ReconcileEvictionRequest insertionSortLessFunc ?ok ?ab ?w))) =
      emptyStatus\<lparr>ActiveInterceptorClass := Some ''b'', EvictionRequestCancellationPolicy := Allow\<rparr>"
    by (simp add: example_defs eval_defs)
  then have q: "\<not> unselected (Status (fst (snd (ReconcileEvictionRequest insertionSortLessFunc ?ok ?ab ?w))))"
    "\<not> ActiveInterceptorCompleted (Status (fst (snd (ReconcileEvictionRequest insertionSortLessFunc ?ok ?ab ?w))))"
    "\<not> deadlineExceeded ?ok' (fst (snd (ReconcileEvictionRequest insertionSortLessFunc ?ok ?ab ?w)))"
    by (simp_all add: unselected_def deadlineExceeded_def emptyStatus_def split: option.splits)
  have n: "Interceptors (Spec ?ab) \<noteq> []" by (simp add: exampleRequest_def exampleSpec_def)
  have g: "Status (fst (snd (reconcileTwice insertionSortLessFunc absentEnv absentEnv ?none ?w))) = emptyStatus"
    using gone a by (simp add: reconcileTwice_eq exampleRequest_def)
  have w: "Status (fst (snd (reconcileTwice insertionSortLessFunc ?ok ?ok' ?ab ?w))) =
      Status (fst (snd (ReconcileEvictionRequest insertionSortLessFunc ?ok ?ab ?w)))"
    using waits p(1) n q by (simp add: reconcileTwice_eq)
  have s: "Status (fst (snd (reconcileTwice insertionSortLessFunc ?ok ?ok' ?none ?w))) =
      Status (fst (snd (ReconcileEvictionRequest insertionSortLessFunc ?ok ?none ?w)))"
    using evicted p(2) t u(1) o(1) by (simp add: reconcileTwice_eq)
  have b: "Conditions (Status (fst (snd (reconcileTwice insertionSortLessFunc ?no ?no' ?none ?w)))) =
      Conditions (Status (fst (snd (ReconcileEvictionRequest insertionSortLessFunc ?no ?none ?w))))"
    using blocked p(3) t u(2) by (simp add: reconcileTwice_eq)
  have c: "failedCounter (Status (fst (snd (reconcileTwice insertionSortLessFunc ?no ?no' ?none ?w)))) =
      failedCounter (Status (fst (snd (ReconcileEvictionRequest insertionSortLessFunc ?no ?none ?w)))) + 1"
    using blocked p(3) t u(2) o(2) by (simp add: reconcileTwice_eq)
  have d: "distinct (map CondType (Conditions (Status ?none)))"
    by (simp add: exampleRequest_def emptyStatus_def)
  have d': "distinct (map CondType (Conditions (Status (fst (snd
      (reconcileTwice insertionSortLessFunc ?no ?no' ?none ?w))))))"
    using blocked d by (simp add: reconcileTwice_eq)
  from a g p(1) q(3) w t o(1) s o(2) b c d d' show ?thesis by (intro conjI)
qed

end
